theory Spec2Isabelle
  imports Main "HOL-Library.Word"
begin

section \<open>Byte strings, identifiers and errors\<close>

text \<open>
  A \<^verbatim>\<open>Uint8Array\<close> is a list of 8-bit words; a \<^verbatim>\<open>DocumentId\<close> is a string.
  Every \<^verbatim>\<open>throw\<close> of the sources is a constructor of \<open>error\<close>;
  a method that may throw returns \<open>error + 'a\<close> together with the state it leaves behind.
\<close>

type_synonym bytes = "8 word list"
type_synonym DocumentId = string
type_synonym Heads = "string list"

datatype error =
    UnauthorizedAccessError
  | DocumentValidationError
  | InvalidHeader
  | HeaderUpgradeRejected
  | FailedToLoadDocument
  | DecodeError
  | CrdtError
  | NoSignalingClient
  | SchemaRejected
  | TransportError
  | DocumentNotFound
  | DocumentRequestTimedOut
  | AggregateError "error list"

section \<open>External collaborators\<close>

text \<open>
  The cryptographic primitives, the CBOR codec and the CRDT library are outside the
  repository. Each is a record of the functions the sources call; a call that may throw
  returns an \<open>option\<close> or a sum.
\<close>

record crypto =
  getPublicKey :: "bytes \<Rightarrow> bytes"
  createSignature :: "bytes \<Rightarrow> bytes \<Rightarrow> bytes"
  verifySignature :: "bytes \<Rightarrow> bytes \<Rightarrow> bytes \<Rightarrow> bool"

text \<open>The object \<^verbatim>\<open>{header, content, signature}\<close> that \<^verbatim>\<open>export\<close> encodes.\<close>

datatype SignedExport = SignedExport (raw_header: bytes) (content: bytes) (content_signature: bytes)

record cbor =
  encode :: "SignedExport \<Rightarrow> bytes"
  decode :: "bytes \<Rightarrow> SignedExport option"

text \<open>
  The Automerge functions used by \<^verbatim>\<open>Document\<close>: \<open>'d\<close> is \<^verbatim>\<open>A.Doc\<close>,
  \<open>'o\<close> is \<^verbatim>\<open>A.ChangeOptions\<close> and \<open>'f\<close> is \<^verbatim>\<open>A.ChangeFn\<close>.
\<close>

record ('d, 'o, 'f) automerge =
  a_init :: 'd
  a_loadIncremental :: "'d \<Rightarrow> bytes \<Rightarrow> 'd option"
  a_save :: "'d \<Rightarrow> bytes"
  a_getHeads :: "'d \<Rightarrow> Heads"
  a_clone :: "'d \<Rightarrow> 'd"
  a_merge :: "'d \<Rightarrow> 'd \<Rightarrow> error + 'd"
  a_change :: "'d \<Rightarrow> 'o \<Rightarrow> 'f \<Rightarrow> error + 'd"
  a_changeAt :: "'d \<Rightarrow> Heads \<Rightarrow> 'o \<Rightarrow> 'f \<Rightarrow> error + 'd"

section \<open>DocumentHeader\<close>

text \<open>Modelled from the spec: the class \<^verbatim>\<open>DocumentHeader\<close>, which \<^verbatim>\<open>Document\<close> imports
  and whose file is not among the sources. Its fields and operations follow sections 3
  and 4.1 of the specification. The hash that derives an address, the canonical
  serialisation that is signed, the header codec and base58 are parameters.\<close>

record 'm DocumentHeader =
  address :: bytes
  owner :: bytes
  allowedUsers :: "bytes list"
  version :: nat
  metadata :: 'm
  signature :: bytes

record 'm header_lib =
  deriveAddress :: "bytes \<Rightarrow> bytes \<Rightarrow> bytes"
  base58 :: "bytes \<Rightarrow> DocumentId"
  canonicalBody :: "bytes \<Rightarrow> nat \<Rightarrow> bytes list \<Rightarrow> 'm \<Rightarrow> bytes"
  encodeHeader :: "'m DocumentHeader \<Rightarrow> bytes"
  decodeHeader :: "bytes \<Rightarrow> 'm DocumentHeader option"

text \<open>Modelled from the spec: the bytes covered by the owner's signature of a header,
  the canonical serialisation of address, version, allowed users and metadata
  (\<^verbatim>\<open>DocumentHeader\<close> is not among the sources).\<close>

definition signedBody :: "'m header_lib \<Rightarrow> 'm DocumentHeader \<Rightarrow> bytes" where
  "signedBody H h = canonicalBody H (address h) (version h) (allowedUsers h) (metadata h)"

text \<open>Modelled from the spec: \<^verbatim>\<open>DocumentHeader.create\<close>, which derives the owner from the
  private key, derives the address from the owner and a nonce, starts at version 1 and
  signs the canonical body; the owner is always an allowed user.\<close>

definition header_create ::
  "crypto \<Rightarrow> 'm header_lib \<Rightarrow> bytes \<Rightarrow> bytes \<Rightarrow> bytes list \<Rightarrow> 'm \<Rightarrow> 'm DocumentHeader" where
  "header_create C H privateKey nonce allowed md =
     (let own = getPublicKey C privateKey;
          addr = deriveAddress H own nonce;
          users = (if own \<in> set allowed then allowed else own # allowed)
      in \<lparr>address = addr, owner = own, allowedUsers = users, version = 1, metadata = md,
          signature = createSignature C (canonicalBody H addr 1 users md) privateKey\<rparr>)"

text \<open>Modelled from the spec: \<^verbatim>\<open>DocumentHeader.import\<close>, which decodes the bytes and
  verifies the signature under the declared owner, failing with \<open>InvalidHeader\<close> otherwise.\<close>

definition header_import :: "crypto \<Rightarrow> 'm header_lib \<Rightarrow> bytes \<Rightarrow> error + 'm DocumentHeader" where
  "header_import C H raw =
     (case decodeHeader H raw of
        None \<Rightarrow> Inl InvalidHeader
      | Some h \<Rightarrow>
          if verifySignature C (signedBody H h) (signature h) (owner h) then Inr h
          else Inl InvalidHeader)"

text \<open>Modelled from the spec: \<^verbatim>\<open>DocumentHeader.export\<close>, the canonical encoding.\<close>

definition header_export :: "'m header_lib \<Rightarrow> 'm DocumentHeader \<Rightarrow> bytes" where
  "header_export H h = encodeHeader H h"

text \<open>Modelled from the spec: \<^verbatim>\<open>DocumentHeader.upgrade\<close>, which enforces address equality,
  a strictly greater version and a signature that verifies under the old owner, and
  returns the new header or fails with \<open>HeaderUpgradeRejected\<close>.\<close>

definition upgrade ::
  "crypto \<Rightarrow> 'm header_lib \<Rightarrow> 'm DocumentHeader \<Rightarrow> 'm DocumentHeader \<Rightarrow> error + 'm DocumentHeader" where
  "upgrade C H oldHeader newHeader =
     (if address newHeader = address oldHeader
         \<and> version oldHeader < version newHeader
         \<and> verifySignature C (signedBody H newHeader) (signature newHeader) (owner oldHeader)
      then Inr newHeader
      else Inl HeaderUpgradeRejected)"

text \<open>Modelled from the spec: \<^verbatim>\<open>DocumentHeader.verifySignature\<close>, which verifies a content
  signature under the owner.\<close>

definition header_verifySignature :: "crypto \<Rightarrow> 'm DocumentHeader \<Rightarrow> bytes \<Rightarrow> bytes \<Rightarrow> bool" where
  "header_verifySignature C h cont sg = verifySignature C cont sg (owner h)"

text \<open>Modelled from the spec: \<^verbatim>\<open>DocumentHeader.hasAllowedUser\<close>, membership of a public
  key in the header's allowed users.\<close>

definition hasAllowedUser :: "'m DocumentHeader \<Rightarrow> bytes \<Rightarrow> bool" where
  "hasAllowedUser h publicKey = (publicKey \<in> set (allowedUsers h))"

section \<open>Document\<close>

text \<open>
  The private fields of the class, followed by the part of the inherited Emittery
  emitter that the class touches: the registered listeners (event name and a handle) and
  the calls of \<^verbatim>\<open>emit\<close> in order. An emission keeps the payload and, for the
  \<^verbatim>\<open>document: this\<close> member of every payload, the CRDT state and the header that the
  object holds at the moment \<^verbatim>\<open>emit\<close> is called. The \<^verbatim>\<open>patch\<close> event is raised by the
  CRDT library from inside its own calls and is not part of the model.
\<close>

datatype event_name = PatchName | ChangeName | HeaderUpdatedName | DestroyedName

datatype ('d, 'm) DocumentEvent =
    Change 'd
  | HeaderUpdated "'m DocumentHeader"
  | Destroyed

record ('d, 'm) emission =
  payload :: "('d, 'm) DocumentEvent"
  held_document :: 'd
  held_header :: "'m DocumentHeader"

record ('d, 'm) Document =
  document :: 'd
  doc_id :: DocumentId
  header :: "'m DocumentHeader"
  lastAccessed :: nat
  destroyed :: bool
  listeners :: "(event_name \<times> nat) list"
  emitted :: "('d, 'm) emission list"

definition emit :: "('d, 'm) DocumentEvent \<Rightarrow> ('d, 'm) Document \<Rightarrow> ('d, 'm) Document" where
  "emit e s =
     s\<lparr>emitted := emitted s @ [\<lparr>payload = e, held_document = document s, held_header = header s\<rparr>]\<rparr>"

definition on_event :: "event_name \<Rightarrow> nat \<Rightarrow> ('d, 'm) Document \<Rightarrow> ('d, 'm) Document" where
  "on_event n l s = s\<lparr>listeners := listeners s @ [(n, l)]\<rparr>"

definition clearListeners :: "('d, 'm) Document \<Rightarrow> ('d, 'm) Document" where
  "clearListeners s = s\<lparr>listeners := []\<rparr>"

text \<open>\<^verbatim>\<open>updateLastAccessed\<close>: the reading of \<^verbatim>\<open>Date.now()\<close> is the argument \<open>now\<close>.\<close>

definition updateLastAccessed :: "nat \<Rightarrow> ('d, 'm) Document \<Rightarrow> ('d, 'm) Document" where
  "updateLastAccessed now s = s\<lparr>lastAccessed := now\<rparr>"

text \<open>The constructor: a fresh CRDT document, no listener, nothing emitted.\<close>

definition new_Document ::
  "'m header_lib \<Rightarrow> ('d, 'o, 'f) automerge \<Rightarrow> nat \<Rightarrow> 'm DocumentHeader \<Rightarrow> ('d, 'm) Document" where
  "new_Document H A now h =
     \<lparr>document = a_init A, doc_id = base58 H (address h), header = h, lastAccessed = now,
      destroyed = False, listeners = [], emitted = []\<rparr>"

definition load ::
  "('d, 'o, 'f) automerge \<Rightarrow> nat \<Rightarrow> bytes \<Rightarrow> ('d, 'm) Document \<Rightarrow> (error + unit) \<times> ('d, 'm) Document" where
  "load A now binary s =
     (let s1 = updateLastAccessed now s
      in case a_loadIncremental A (document s1) binary of
           None \<Rightarrow> (Inl FailedToLoadDocument, s1)
         | Some d \<Rightarrow> (Inr (), s1\<lparr>document := d\<rparr>))"

definition hasChanged :: "('d, 'o, 'f) automerge \<Rightarrow> ('d, 'm) Document \<Rightarrow> 'd \<Rightarrow> bool" where
  "hasChanged A s d =
     (let aHeads = a_getHeads A (document s);
          bHeads = a_getHeads A d
      in \<not> (length aHeads = length bHeads \<and> list_all (\<lambda>head. head \<in> set bHeads) aHeads))"

text \<open>\<^verbatim>\<open>update\<close>: a callback that throws leaves through the \<open>Inl\<close> branch, after the
  timestamp was refreshed and before anything else happened.\<close>

definition update ::
  "('d, 'o, 'f) automerge \<Rightarrow> nat \<Rightarrow> ('d \<Rightarrow> error + 'd) \<Rightarrow> ('d, 'm) Document
     \<Rightarrow> (error + 'd) \<times> ('d, 'm) Document" where
  "update A now callback s =
     (let s1 = updateLastAccessed now s
      in case callback (document s1) of
           Inl e \<Rightarrow> (Inl e, s1)
         | Inr newDocument \<Rightarrow>
             (let s2 = (if hasChanged A s1 newDocument then emit (Change newDocument) s1 else s1);
                  s3 = s2\<lparr>document := newDocument\<rparr>
              in (Inr (document s3), s3)))"

definition change ::
  "('d, 'o, 'f) automerge \<Rightarrow> nat \<Rightarrow> 'f \<Rightarrow> 'o \<Rightarrow> ('d, 'm) Document
     \<Rightarrow> (error + 'd) \<times> ('d, 'm) Document" where
  "change A now callback options s = update A now (\<lambda>d. a_change A d options callback) s"

definition changeAt ::
  "('d, 'o, 'f) automerge \<Rightarrow> nat \<Rightarrow> Heads \<Rightarrow> 'f \<Rightarrow> 'o \<Rightarrow> ('d, 'm) Document
     \<Rightarrow> (error + unit) \<times> ('d, 'm) Document" where
  "changeAt A now heads callback options s =
     (case update A now (\<lambda>d. a_changeAt A d heads options callback) s of
        (Inl e, s') \<Rightarrow> (Inl e, s')
      | (Inr _, s') \<Rightarrow> (Inr (), s'))"

text \<open>The getters; \<^verbatim>\<open>data\<close> and \<^verbatim>\<open>header\<close> refresh the timestamp.\<close>

definition get_id :: "('d, 'm) Document \<Rightarrow> DocumentId" where
  "get_id s = doc_id s"

definition get_data :: "nat \<Rightarrow> ('d, 'm) Document \<Rightarrow> 'd \<times> ('d, 'm) Document" where
  "get_data now s = (let s1 = updateLastAccessed now s in (document s1, s1))"

definition get_header :: "nat \<Rightarrow> ('d, 'm) Document \<Rightarrow> 'm DocumentHeader \<times> ('d, 'm) Document" where
  "get_header now s = (let s1 = updateLastAccessed now s in (header s1, s1))"

definition get_lastAccessed :: "('d, 'm) Document \<Rightarrow> nat" where
  "get_lastAccessed s = lastAccessed s"

definition get_destroyed :: "('d, 'm) Document \<Rightarrow> bool" where
  "get_destroyed s = destroyed s"

definition export ::
  "crypto \<Rightarrow> 'm header_lib \<Rightarrow> ('d, 'o, 'f) automerge \<Rightarrow> cbor \<Rightarrow> nat \<Rightarrow> bytes \<Rightarrow> ('d, 'm) Document
     \<Rightarrow> (error + bytes) \<times> ('d, 'm) Document" where
  "export C H A B now privateKey s =
     (let hdr = header_export H (header s)
      in if \<not> hasAllowedUser (header s) (getPublicKey C privateKey)
         then (Inl UnauthorizedAccessError, s)
         else (let (d, s1) = get_data now s;
                   cont = a_save A d;
                   sg = createSignature C cont privateKey
               in (Inr (encode B (SignedExport hdr cont sg)), s1)))"

definition clone ::
  "'m header_lib \<Rightarrow> ('d, 'o, 'f) automerge \<Rightarrow> nat \<Rightarrow> ('d, 'm) Document \<Rightarrow> ('d, 'm) Document" where
  "clone H A now s = (new_Document H A now (header s))\<lparr>document := a_clone A (document s)\<rparr>"

text \<open>\<^verbatim>\<open>updateHeader\<close>: the \<^verbatim>\<open>catch\<close> turns a rejected upgrade into \<^verbatim>\<open>false\<close>.\<close>

definition updateHeader ::
  "crypto \<Rightarrow> 'm header_lib \<Rightarrow> nat \<Rightarrow> 'm DocumentHeader \<Rightarrow> ('d, 'm) Document
     \<Rightarrow> bool \<times> ('d, 'm) Document" where
  "updateHeader C H now h s =
     (let s1 = updateLastAccessed now s
      in case upgrade C H (header s1) h of
           Inl e \<Rightarrow> (False, s1)
         | Inr h' \<Rightarrow> (True, emit (HeaderUpdated h') (s1\<lparr>header := h'\<rparr>)))"

definition mergeDocument ::
  "crypto \<Rightarrow> 'm header_lib \<Rightarrow> ('d, 'o, 'f) automerge \<Rightarrow> nat \<Rightarrow> ('d, 'm) Document \<Rightarrow> ('d, 'm) Document
     \<Rightarrow> (error + unit) \<times> ('d, 'm) Document" where
  "mergeDocument C H A now other s =
     (case updateHeader C H now (header other) s of
        (True, s1) \<Rightarrow>
          (case update A now (\<lambda>doc. a_merge A doc (a_clone A (document other))) s1 of
             (Inl e, s2) \<Rightarrow> (Inl e, s2)
           | (Inr _, s2) \<Rightarrow> (Inr (), s2))
      | (False, s1) \<Rightarrow> (Inr (), s1))"

text \<open>\<^verbatim>\<open>destroy\<close>: the three statements in order, with no other call of the document
  running between them.\<close>

definition destroy :: "('d, 'm) Document \<Rightarrow> ('d, 'm) Document" where
  "destroy s = clearListeners (emit Destroyed (s\<lparr>destroyed := True\<rparr>))"

definition fromRawHeader ::
  "crypto \<Rightarrow> 'm header_lib \<Rightarrow> ('d, 'o, 'f) automerge \<Rightarrow> nat \<Rightarrow> bytes \<Rightarrow> bytes
     \<Rightarrow> error + ('d, 'm) Document" where
  "fromRawHeader C H A now rawHeader cont =
     (case header_import C H rawHeader of
        Inl e \<Rightarrow> Inl e
      | Inr h \<Rightarrow>
          (case load A now cont (new_Document H A now h) of
             (Inl e, s) \<Rightarrow> Inl e
           | (Inr _, s) \<Rightarrow> Inr s))"

definition import_document ::
  "crypto \<Rightarrow> 'm header_lib \<Rightarrow> ('d, 'o, 'f) automerge \<Rightarrow> cbor \<Rightarrow> nat \<Rightarrow> bytes
     \<Rightarrow> error + ('d, 'm) Document" where
  "import_document C H A B now rawDocument =
     (case decode B rawDocument of
        None \<Rightarrow> Inl DecodeError
      | Some x \<Rightarrow>
          (case header_import C H (raw_header x) of
             Inl e \<Rightarrow> Inl e
           | Inr h \<Rightarrow>
               if \<not> header_verifySignature C h (content x) (content_signature x)
               then Inl DocumentValidationError
               else fromRawHeader C H A now (raw_header x) (content x)))"

definition create ::
  "crypto \<Rightarrow> 'm header_lib \<Rightarrow> ('d, 'o, 'f) automerge \<Rightarrow> nat \<Rightarrow> bytes \<Rightarrow> bytes \<Rightarrow> bytes list \<Rightarrow> 'm
     \<Rightarrow> ('d, 'm) Document" where
  "create C H A now privateKey nonce allowedClients md =
     new_Document H A now (header_create C H privateKey nonce allowedClients md)"

section \<open>MessageExchanger\<close>

text \<open>Modelled from the spec: the type \<^verbatim>\<open>Message\<close>, imported from a file that is not
  among the sources, with the members \<^verbatim>\<open>from.publicKey\<close>, \<^verbatim>\<open>from.clientId\<close> and
  \<^verbatim>\<open>data\<close> of section 4.4, which are the ones the sources read. Payloads are JavaScript
  values.\<close>

datatype jsvalue =
    JUndefined
  | JString string
  | JNumber int
  | JBytes bytes
  | JObject "(string \<times> jsvalue) list"

record sender =
  publicKey :: bytes
  clientId :: bytes

record recipient =
  to_publicKey :: bytes
  to_clientId :: "bytes option"

record 'a Message =
  msg_from :: sender
  msg_data :: 'a

record outgoing =
  out_to :: "recipient option"
  out_data :: jsvalue

text \<open>
  The verifier is zod's discriminated union over the member \<^verbatim>\<open>type\<close>: the input must be
  an object, the value of its \<^verbatim>\<open>type\<close> selects the option with that literal, and the
  selected option parses the input. zod is an external library; an option is its
  literal together with its parsing function.
\<close>

datatype ZodError = invalid_type | invalid_union_discriminator | invalid_option

record TypedSchema =
  type_literal :: string
  parse_shape :: "jsvalue \<Rightarrow> jsvalue option"

definition discriminator :: "jsvalue \<Rightarrow> string option" where
  "discriminator input =
     (case input of
        JObject props \<Rightarrow> (case map_of props ''type'' of Some (JString t) \<Rightarrow> Some t | _ \<Rightarrow> None)
      | _ \<Rightarrow> None)"

definition safeParse :: "TypedSchema list \<Rightarrow> jsvalue \<Rightarrow> ZodError + jsvalue" where
  "safeParse schemas input =
     (case input of
        JObject props \<Rightarrow>
          (case discriminator input of
             None \<Rightarrow> Inl invalid_union_discriminator
           | Some t \<Rightarrow>
               (case find (\<lambda>schema. type_literal schema = t) schemas of
                  None \<Rightarrow> Inl invalid_union_discriminator
                | Some schema \<Rightarrow>
                    (case parse_shape schema input of
                       None \<Rightarrow> Inl invalid_option
                     | Some d \<Rightarrow> Inr d)))
      | _ \<Rightarrow> Inl invalid_type)"

text \<open>
  The two schemas that the sharing client declares are \<^verbatim>\<open>z.object\<close> schemas over
  \<^verbatim>\<open>z.literal\<close>, \<^verbatim>\<open>z.string()\<close> and \<^verbatim>\<open>z.instanceof(Uint8Array)\<close>: every declared key
  must be present with a value of its type, and the output keeps the declared keys only.
\<close>

datatype ZodType = ZodLiteral string | ZodString | ZodInstanceofUint8Array

fun zod_accepts :: "ZodType \<Rightarrow> jsvalue \<Rightarrow> bool" where
  "zod_accepts (ZodLiteral l) v = (v = JString l)"
| "zod_accepts ZodString v = (case v of JString s \<Rightarrow> True | _ \<Rightarrow> False)"
| "zod_accepts ZodInstanceofUint8Array v = (case v of JBytes b \<Rightarrow> True | _ \<Rightarrow> False)"

fun parse_fields :: "(string \<times> ZodType) list \<Rightarrow> (string \<times> jsvalue) list \<Rightarrow> (string \<times> jsvalue) list option" where
  "parse_fields [] props = Some []"
| "parse_fields ((k, t) # shape) props =
     (case map_of props k of
        None \<Rightarrow> None
      | Some v \<Rightarrow> if zod_accepts t v then map_option ((#) (k, v)) (parse_fields shape props) else None)"

definition z_object :: "(string \<times> ZodType) list \<Rightarrow> jsvalue \<Rightarrow> jsvalue option" where
  "z_object shape input =
     (case input of JObject props \<Rightarrow> map_option JObject (parse_fields shape props) | _ \<Rightarrow> None)"

definition typed_object :: "string \<Rightarrow> (string \<times> ZodType) list \<Rightarrow> TypedSchema" where
  "typed_object lit shape =
     \<lparr>type_literal = lit, parse_shape = z_object ((''type'', ZodLiteral lit) # shape)\<rparr>"

definition RequestDocumentMessageSchema :: TypedSchema where
  "RequestDocumentMessageSchema = typed_object ''request-document'' [(''documentId'', ZodString)]"

definition ResponseDocumentMessageSchema :: TypedSchema where
  "ResponseDocumentMessageSchema =
     typed_object ''document-response'' [(''document'', ZodInstanceofUint8Array)]"

text \<open>
  The exchanger: its verifier, its client handler, the clients whose \<^verbatim>\<open>message\<close> event it
  is subscribed to, the events it emitted (name and message), what it wrote with
  \<^verbatim>\<open>console.error\<close>, and the calls it made to \<^verbatim>\<open>client.sendMessage\<close>.
\<close>

record 'c MessageExchanger =
  verifier :: "TypedSchema list"
  clientHandler :: "'c option"
  subscriptions :: "'c list"
  emitted_messages :: "(jsvalue \<times> jsvalue Message) list"
  console_errors :: "ZodError list"
  delegated :: "('c \<times> outgoing) list"

definition new_MessageExchanger :: "TypedSchema list \<Rightarrow> 'c MessageExchanger" where
  "new_MessageExchanger schemas =
     \<lparr>verifier = schemas, clientHandler = None, subscriptions = [], emitted_messages = [],
      console_errors = [], delegated = []\<rparr>"

definition setClient :: "'c \<Rightarrow> 'c MessageExchanger \<Rightarrow> 'c MessageExchanger" where
  "setClient client x =
     (if clientHandler x \<noteq> Some client
      then x\<lparr>subscriptions :=
               (case clientHandler x of None \<Rightarrow> subscriptions x
                | Some old \<Rightarrow> remove1 old (subscriptions x)) @ [client],
             clientHandler := Some client\<rparr>
      else x)"

text \<open>
  \<^verbatim>\<open>sendMessage\<close>: the argument of \<^verbatim>\<open>client.sendMessage\<close> is built first, so a payload
  that \<^verbatim>\<open>parseAsync\<close> rejects throws before the client is called. The signaling client is
  not among the sources: \<open>client_sendMessage\<close> tells whether its promise is fulfilled.
\<close>

definition sendMessage ::
  "('c \<Rightarrow> outgoing \<Rightarrow> bool) \<Rightarrow> jsvalue \<Rightarrow> recipient option \<Rightarrow> 'c MessageExchanger
     \<Rightarrow> (error + unit) \<times> 'c MessageExchanger" where
  "sendMessage client_sendMessage d to x =
     (case clientHandler x of
        None \<Rightarrow> (Inl NoSignalingClient, x)
      | Some client \<Rightarrow>
          (case safeParse (verifier x) d of
             Inl e \<Rightarrow> (Inl SchemaRejected, x)
           | Inr parsed \<Rightarrow>
               (let envelope = \<lparr>out_to = to, out_data = parsed\<rparr>;
                    x' = x\<lparr>delegated := delegated x @ [(client, envelope)]\<rparr>
                in (if client_sendMessage client envelope then Inr () else Inl TransportError, x'))))"

text \<open>
  \<^verbatim>\<open>handle\<close>: the event name is \<^verbatim>\<open>data.type\<close> of the parsed data. Emittery takes a
  string or a number as event name; its refusal of anything else happens inside the
  asynchronous \<^verbatim>\<open>emit\<close>, whose promise \<^verbatim>\<open>handle\<close> discards.
\<close>

definition data_type :: "jsvalue \<Rightarrow> jsvalue option" where
  "data_type d = (case d of JObject props \<Rightarrow> map_of props ''type'' | _ \<Rightarrow> None)"

definition emit_message ::
  "jsvalue option \<Rightarrow> jsvalue Message \<Rightarrow> 'c MessageExchanger \<Rightarrow> 'c MessageExchanger" where
  "emit_message eventName m x =
     (case eventName of
        Some (JString t) \<Rightarrow> x\<lparr>emitted_messages := emitted_messages x @ [(JString t, m)]\<rparr>
      | Some (JNumber n) \<Rightarrow> x\<lparr>emitted_messages := emitted_messages x @ [(JNumber n, m)]\<rparr>
      | _ \<Rightarrow> x)"

definition handle ::
  "jsvalue Message \<Rightarrow> 'c MessageExchanger \<Rightarrow> (error + unit) \<times> 'c MessageExchanger" where
  "handle message x =
     (case safeParse (verifier x) (msg_data message) of
        Inr d \<Rightarrow> (Inr (), emit_message (data_type d) (message\<lparr>msg_data := d\<rparr>) x)
      | Inl e \<Rightarrow> (Inr (), x\<lparr>console_errors := console_errors x @ [e]\<rparr>))"

section \<open>DocumentSharingClient\<close>

text \<open>
  The sharing client of the sources (the later of the two versions; the earlier one has the
  same \<^verbatim>\<open>request-document\<close> handler and reads the private key from a field): its
  exchanger, the registry of live documents, the stored blobs, the \<^verbatim>\<open>share-document\<close>
  events it emitted and the calls it made to \<^verbatim>\<open>peerManager.createPeer\<close>.
  \<^verbatim>\<open>SignalMessageSchema\<close> is declared with the peer manager, which is not among the
  sources, and is a parameter.
\<close>

record ('d, 'm, 'c) DocumentSharingClient =
  exchanger :: "'c MessageExchanger"
  documents :: "DocumentId \<rightharpoonup> ('d, 'm) Document"
  stored :: "DocumentId \<rightharpoonup> bytes \<times> bytes"
  shared :: "(DocumentId \<times> sender) list"
  created_peers :: "(bool \<times> DocumentId \<times> sender) list"

definition new_DocumentSharingClient ::
  "TypedSchema \<Rightarrow> 'c \<Rightarrow> (DocumentId \<rightharpoonup> bytes \<times> bytes) \<Rightarrow> ('d, 'm, 'c) DocumentSharingClient" where
  "new_DocumentSharingClient SignalMessageSchema client provider =
     \<lparr>exchanger = setClient client (new_MessageExchanger
         [RequestDocumentMessageSchema, ResponseDocumentMessageSchema, SignalMessageSchema]),
      documents = Map.empty, stored = provider, shared = [], created_peers = []\<rparr>"

text \<open>Modelled from the spec: \<^verbatim>\<open>DocumentRegistry.setDocument\<close>, which merges into the
  document registered under the same id with \<^verbatim>\<open>mergeDocument\<close>, or else registers the
  document (\<^verbatim>\<open>DocumentRegistry\<close> is not among the sources; the events it emits are left out).\<close>

definition setDocument ::
  "crypto \<Rightarrow> 'm header_lib \<Rightarrow> ('d, 'o, 'f) automerge \<Rightarrow> nat \<Rightarrow> ('d, 'm) Document
     \<Rightarrow> ('d, 'm, 'c) DocumentSharingClient
     \<Rightarrow> (error + ('d, 'm) Document) \<times> ('d, 'm, 'c) DocumentSharingClient" where
  "setDocument C H A now d st =
     (case documents st (get_id d) of
        Some existing \<Rightarrow>
          (case mergeDocument C H A now d existing of
             (Inl e, merged) \<Rightarrow> (Inl e, st\<lparr>documents := (documents st)(get_id d \<mapsto> merged)\<rparr>)
           | (Inr _, merged) \<Rightarrow> (Inr merged, st\<lparr>documents := (documents st)(get_id d \<mapsto> merged)\<rparr>))
      | None \<Rightarrow> (Inr d, st\<lparr>documents := (documents st)(get_id d \<mapsto> d)\<rparr>))"

text \<open>\<^verbatim>\<open>findDocument\<close>: the registry's own lookup, then the storage. Modelled from the
  spec: the registry's lookup returns the in-memory document, and the storage holds a
  header blob and a content blob per document id.\<close>

definition findDocument ::
  "crypto \<Rightarrow> 'm header_lib \<Rightarrow> ('d, 'o, 'f) automerge \<Rightarrow> nat \<Rightarrow> DocumentId
     \<Rightarrow> ('d, 'm, 'c) DocumentSharingClient
     \<Rightarrow> (error + ('d, 'm) Document option) \<times> ('d, 'm, 'c) DocumentSharingClient" where
  "findDocument C H A now ident st =
     (case documents st ident of
        Some d \<Rightarrow> (Inr (Some d), st)
      | None \<Rightarrow>
          (case stored st ident of
             None \<Rightarrow> (Inr None, st)
           | Some (rawHeader, binary) \<Rightarrow>
               (case fromRawHeader C H A now rawHeader binary of
                  Inl e \<Rightarrow> (Inl e, st)
                | Inr d \<Rightarrow>
                    (case setDocument C H A now d st of
                       (Inl e, st') \<Rightarrow> (Inl e, st')
                     | (Inr d', st') \<Rightarrow> (Inr (Some d'), st')))))"

text \<open>
  The handler of \<^verbatim>\<open>request-document\<close>, for a message from \<open>sndr\<close> that asks for
  \<open>documentId\<close>. A document is an object shared with the registry, so the refreshed
  timestamps are written back. The listeners of \<^verbatim>\<open>share-document\<close> and
  \<^verbatim>\<open>createPeer\<close> are taken to return normally.
\<close>

definition document_response :: "bytes \<Rightarrow> jsvalue" where
  "document_response exported =
     JObject [(''type'', JString ''document-response''), (''document'', JBytes exported)]"

definition reply_to :: "sender \<Rightarrow> recipient" where
  "reply_to s = \<lparr>to_publicKey = publicKey s, to_clientId = Some (clientId s)\<rparr>"

definition on_request_document ::
  "crypto \<Rightarrow> 'm header_lib \<Rightarrow> ('d, 'o, 'f) automerge \<Rightarrow> cbor \<Rightarrow> ('c \<Rightarrow> outgoing \<Rightarrow> bool)
     \<Rightarrow> nat \<Rightarrow> bytes \<Rightarrow> sender \<Rightarrow> DocumentId \<Rightarrow> ('d, 'm, 'c) DocumentSharingClient
     \<Rightarrow> (error + unit) \<times> ('d, 'm, 'c) DocumentSharingClient" where
  "on_request_document C H A B cs now privateKey sndr documentId st =
     (case findDocument C H A now documentId st of
        (Inl e, st1) \<Rightarrow> (Inl e, st1)
      | (Inr None, st1) \<Rightarrow> (Inr (), st1)
      | (Inr (Some d), st1) \<Rightarrow>
          (let (h, d1) = get_header now d;
               st2 = st1\<lparr>documents := (documents st1)(get_id d \<mapsto> d1)\<rparr>
           in if hasAllowedUser h (publicKey sndr)
              then (case export C H A B now privateKey d1 of
                      (Inl e, d2) \<Rightarrow> (Inl e, st2\<lparr>documents := (documents st2)(get_id d \<mapsto> d2)\<rparr>)
                    | (Inr exported, d2) \<Rightarrow>
                        (let st3 = st2\<lparr>documents := (documents st2)(get_id d \<mapsto> d2)\<rparr>
                         in case sendMessage cs (document_response exported) (Some (reply_to sndr))
                                   (exchanger st3) of
                              (Inl e, x) \<Rightarrow> (Inl e, st3\<lparr>exchanger := x\<rparr>)
                            | (Inr _, x) \<Rightarrow>
                                (Inr (), st3\<lparr>exchanger := x,
                                              shared := shared st3 @ [(documentId, sndr)],
                                              created_peers := created_peers st3 @ [(True, documentId, sndr)]\<rparr>)))
              else (Inr (), st2)))"

text \<open>The handler of \<^verbatim>\<open>document-response\<close>: the received document is imported and
  registered, whoever sent it.\<close>

definition on_document_response ::
  "crypto \<Rightarrow> 'm header_lib \<Rightarrow> ('d, 'o, 'f) automerge \<Rightarrow> cbor \<Rightarrow> nat \<Rightarrow> bytes
     \<Rightarrow> ('d, 'm, 'c) DocumentSharingClient
     \<Rightarrow> (error + unit) \<times> ('d, 'm, 'c) DocumentSharingClient" where
  "on_document_response C H A B now rawDocument st =
     (case import_document C H A B now rawDocument of
        Inl e \<Rightarrow> (Inl e, st)
      | Inr d \<Rightarrow>
          (case setDocument C H A now d st of
             (Inl e, st') \<Rightarrow> (Inl e, st')
           | (Inr _, st') \<Rightarrow> (Inr (), st')))"

text \<open>
  \<^verbatim>\<open>requestDocument\<close> returns a promise. A promise is described by how it settles:
  fulfilled with a value or rejected with an error at an instant, counted in milliseconds
  from the call, or never. \<^verbatim>\<open>then\<close>, \<^verbatim>\<open>Promise.race\<close> and \<^verbatim>\<open>Promise.any\<close> are those of
  the language: a race settles as its first member to settle; \<^verbatim>\<open>any\<close> is fulfilled by its
  first member to be fulfilled, and is rejected with an \<^verbatim>\<open>AggregateError\<close> of all the
  errors once every member is rejected. Members that settle at the same instant are taken
  in the order of the array.
\<close>

datatype 'a promise = Fulfilled nat 'a | Rejected nat error | Pending

fun settle_time :: "'a promise \<Rightarrow> nat option" where
  "settle_time (Fulfilled t v) = Some t"
| "settle_time (Rejected t e) = Some t"
| "settle_time Pending = None"

definition promise_then :: "'a promise \<Rightarrow> ('a \<Rightarrow> error + 'b) \<Rightarrow> 'b promise" where
  "promise_then p f =
     (case p of
        Fulfilled t v \<Rightarrow> (case f v of Inl e \<Rightarrow> Rejected t e | Inr w \<Rightarrow> Fulfilled t w)
      | Rejected t e \<Rightarrow> Rejected t e
      | Pending \<Rightarrow> Pending)"

fun promise_race :: "'a promise list \<Rightarrow> 'a promise" where
  "promise_race [] = Pending"
| "promise_race (p # ps) =
     (case settle_time p of
        None \<Rightarrow> promise_race ps
      | Some t \<Rightarrow>
          (case settle_time (promise_race ps) of
             None \<Rightarrow> p
           | Some u \<Rightarrow> if t \<le> u then p else promise_race ps))"

fun first_fulfilled :: "'a promise list \<Rightarrow> (nat \<times> 'a) option" where
  "first_fulfilled [] = None"
| "first_fulfilled (Fulfilled t v # ps) =
     (case first_fulfilled ps of
        None \<Rightarrow> Some (t, v)
      | Some (u, w) \<Rightarrow> if t \<le> u then Some (t, v) else Some (u, w))"
| "first_fulfilled (p # ps) = first_fulfilled ps"

fun all_rejected :: "'a promise list \<Rightarrow> (nat \<times> error list) option" where
  "all_rejected [] = Some (0, [])"
| "all_rejected (Rejected t e # ps) = map_option (\<lambda>(u, es). (max t u, e # es)) (all_rejected ps)"
| "all_rejected (p # ps) = None"

definition promise_any :: "'a promise list \<Rightarrow> 'a promise" where
  "promise_any ps =
     (case first_fulfilled ps of
        Some (t, v) \<Rightarrow> Fulfilled t v
      | None \<Rightarrow>
          (case all_rejected ps of
             Some (t, es) \<Rightarrow> Rejected t (AggregateError es)
           | None \<Rightarrow> Pending))"

text \<open>
  \<^verbatim>\<open>requestDocument\<close>: the result of the send is discarded (\<^verbatim>\<open>void\<close>). The instant
  \<open>lookup_settles\<close> at which \<^verbatim>\<open>findDocument\<close> settles and the arrival of the first
  \<^verbatim>\<open>document-<id>\<close> event (its instant and its document, or none) are arguments; the timer
  rejects at 5000.
\<close>

definition request_document :: "DocumentId \<Rightarrow> jsvalue" where
  "request_document documentId =
     JObject [(''type'', JString ''request-document''), (''documentId'', JString documentId)]"

definition requestDocument ::
  "crypto \<Rightarrow> 'm header_lib \<Rightarrow> ('d, 'o, 'f) automerge \<Rightarrow> ('c \<Rightarrow> outgoing \<Rightarrow> bool) \<Rightarrow> nat
     \<Rightarrow> nat \<Rightarrow> (nat \<times> ('d, 'm) Document) option \<Rightarrow> DocumentId
     \<Rightarrow> ('d, 'm, 'c) DocumentSharingClient
     \<Rightarrow> ('d, 'm) Document promise \<times> ('d, 'm, 'c) DocumentSharingClient" where
  "requestDocument C H A cs now lookup_settles arrival documentId st =
     (let (sent, x) = sendMessage cs (request_document documentId) None (exchanger st);
          (r, st1) = findDocument C H A now documentId (st\<lparr>exchanger := x\<rparr>);
          lookup = (case r of Inl e \<Rightarrow> Rejected lookup_settles e
                    | Inr found \<Rightarrow> Fulfilled lookup_settles found);
          event = (case arrival of None \<Rightarrow> Pending | Some (t, d) \<Rightarrow> Fulfilled t d);
          timer = Rejected 5000 DocumentRequestTimedOut
      in (promise_any
            [promise_then lookup
               (\<lambda>document. case document of None \<Rightarrow> Inl DocumentNotFound | Some d \<Rightarrow> Inr d),
             promise_race [event, timer]],
          st1))"

section \<open>Reference instances of the external interfaces\<close>

text \<open>
  Small executable instances of the external interfaces, on which the theorems below are
  exercised: a signature scheme whose public key is the private key with every byte
  incremented, a self-delimiting codec (each field is preceded by its length in unary), and
  a CRDT whose document is the list of the one-byte changes applied so far, the last one
  being its only head and the value of \<^verbatim>\<open>data.count\<close>.
\<close>

definition ref_crypto :: crypto where
  "ref_crypto =
     \<lparr>getPublicKey = map (\<lambda>b. b + 1),
      createSignature = (\<lambda>cont privateKey. map (\<lambda>b. b + 1) privateKey @ cont),
      verifySignature = (\<lambda>cont sg publicKey. sg = publicKey @ cont)\<rparr>"

definition chunk :: "bytes \<Rightarrow> bytes" where
  "chunk b = replicate (length b) 1 @ [0] @ b"

fun unchunk_from :: "nat \<Rightarrow> bytes \<Rightarrow> (bytes \<times> bytes) option" where
  "unchunk_from n [] = None"
| "unchunk_from n (b # r) =
     (if b = 0 then (if n \<le> length r then Some (take n r, drop n r) else None)
      else unchunk_from (Suc n) r)"

fun unchunks :: "nat \<Rightarrow> bytes \<Rightarrow> bytes list option" where
  "unchunks 0 xs = (if xs = [] then Some [] else None)"
| "unchunks (Suc n) xs =
     (if xs = [] then Some []
      else case unchunk_from 0 xs of
             None \<Rightarrow> None
           | Some (b, r) \<Rightarrow> map_option ((#) b) (unchunks n r))"

definition ref_cbor :: cbor where
  "ref_cbor =
     \<lparr>encode = (\<lambda>x. chunk (raw_header x) @ chunk (content x) @ chunk (content_signature x)),
      decode = (\<lambda>xs. case unchunks (length xs) xs of
                        Some [h, c, s] \<Rightarrow> Some (SignedExport h c s)
                      | _ \<Rightarrow> None)\<rparr>"

definition ref_header_lib :: "bytes header_lib" where
  "ref_header_lib =
     \<lparr>deriveAddress = (\<lambda>own nonce. own @ nonce),
      base58 = (\<lambda>bs. concat (map (\<lambda>b. replicate (unat b) CHR ''i'' @ ''.'') bs)),
      canonicalBody = (\<lambda>addr v users md. chunk addr @ chunk (replicate v 2) @ concat (map chunk users) @ md),
      encodeHeader = (\<lambda>h. concat (map chunk
          ([address h, owner h, replicate (version h) 2, metadata h, signature h] @ allowedUsers h))),
      decodeHeader = (\<lambda>xs. case unchunks (length xs) xs of
          Some (a # ow # v # md # sg # users) \<Rightarrow>
            Some \<lparr>address = a, owner = ow, allowedUsers = users, version = length v,
                  metadata = md, signature = sg\<rparr>
        | _ \<Rightarrow> None)\<rparr>"

definition ref_heads :: "bytes \<Rightarrow> Heads" where
  "ref_heads d = (if d = [] then [] else [replicate (unat (last d)) CHR ''x''])"

definition ref_automerge :: "(bytes, unit, 8 word) automerge" where
  "ref_automerge =
     \<lparr>a_init = [],
      a_loadIncremental = (\<lambda>d b. Some (d @ filter (\<lambda>c. c \<notin> set d) b)),
      a_save = (\<lambda>d. d),
      a_getHeads = ref_heads,
      a_clone = (\<lambda>d. d),
      a_merge = (\<lambda>d e. Inr (d @ filter (\<lambda>c. c \<notin> set d) e)),
      a_change = (\<lambda>d opts c. if c \<in> set d then Inl CrdtError else Inr (d @ [c])),
      a_changeAt = (\<lambda>d heads opts c. if c \<in> set d then Inl CrdtError else Inr (d @ [c]))\<rparr>"

definition ref_count :: "bytes \<Rightarrow> int option" where
  "ref_count d = (if d = [] then None else Some (uint (last d)))"

text \<open>A document created by the owner with private key \<open>[7]\<close> (public key \<open>[8]\<close>),
  and two documents that each applied one change to it.\<close>

definition doc0 :: "(bytes, bytes) Document" where
  "doc0 = create ref_crypto ref_header_lib ref_automerge 0 [7] [9] [[8]] [1]"

definition doc1 :: "(bytes, bytes) Document" where
  "doc1 = snd (change ref_automerge 1 5 () doc0)"

definition doc2 :: "(bytes, bytes) Document" where
  "doc2 = snd (change ref_automerge 1 6 () doc0)"

text \<open>The owner's second header: version 2, one more allowed user, signed by the owner;
  and a document that carries it.\<close>

definition header_v2 :: "bytes DocumentHeader" where
  "header_v2 =
     (let h = (header doc0)\<lparr>version := 2, allowedUsers := [[8], [4]]\<rparr>
      in h\<lparr>signature := createSignature ref_crypto (signedBody ref_header_lib h) [7]\<rparr>)"

definition doc3 :: "(bytes, bytes) Document" where
  "doc3 = snd (updateHeader ref_crypto ref_header_lib 2 header_v2 doc2)"

text \<open>An exchanger over the two declared schemas with client \<open>0\<close>, a well-formed
  request, the request of scenario S6 whose \<^verbatim>\<open>documentId\<close> is a number, a requester, and the
  schema that stands for \<^verbatim>\<open>SignalMessageSchema\<close>.\<close>

definition exchanger0 :: "nat MessageExchanger" where
  "exchanger0 = setClient 0
     (new_MessageExchanger [RequestDocumentMessageSchema, ResponseDocumentMessageSchema])"

definition good_request :: jsvalue where
  "good_request = JObject [(''type'', JString ''request-document''), (''documentId'', JString ''abc'')]"

definition bad_request :: jsvalue where
  "bad_request = JObject [(''type'', JString ''request-document''), (''documentId'', JNumber 42)]"

definition requester :: sender where
  "requester = \<lparr>publicKey = [4], clientId = [1]\<rparr>"

definition ref_signal_schema :: TypedSchema where
  "ref_signal_schema = typed_object ''signal'' [(''documentId'', ZodString)]"

text \<open>The owner's export of \<open>doc3\<close>, the client that received it in a
  \<^verbatim>\<open>document-response\<close>, and the document this client then holds.\<close>

definition export3 :: bytes where
  "export3 = encode ref_cbor
     (SignedExport (header_export ref_header_lib header_v2) [6] (createSignature ref_crypto [6] [7]))"

definition client0 :: "(bytes, bytes, nat) DocumentSharingClient" where
  "client0 = snd (on_document_response ref_crypto ref_header_lib ref_automerge ref_cbor 3 export3
               (new_DocumentSharingClient ref_signal_schema 0 Map.empty))"

definition doc4 :: "(bytes, bytes) Document" where
  "doc4 = (new_Document ref_header_lib ref_automerge 3 header_v2)\<lparr>document := [6]\<rparr>"

text \<open>A sharing client that holds and stores no document.\<close>

definition empty_client :: "(bytes, bytes, nat) DocumentSharingClient" where
  "empty_client = new_DocumentSharingClient ref_signal_schema 0 Map.empty"

section \<open>Facts about the reference instances\<close>

lemma unchunk_from_replicate:
  "unchunk_from n (replicate k 1 @ 0 # xs) =
     (if n + k \<le> length xs then Some (take (n + k) xs, drop (n + k) xs) else None)"
  by (induction k arbitrary: n) simp_all

lemma unchunk_chunk: "unchunk_from 0 (chunk b @ r) = Some (b, r)"
  using unchunk_from_replicate [of 0 "length b" "b @ r"] by (simp add: chunk_def)

lemma chunk_not_Nil: "chunk b \<noteq> []"
  by (simp add: chunk_def)

lemma unchunks_concat:
  "length fs \<le> n \<Longrightarrow> unchunks n (concat (map chunk fs)) = Some fs"
proof (induction fs arbitrary: n)
  case Nil
  then show ?case by (cases n) simp_all
next
  case (Cons f fs)
  then obtain m where n: "n = Suc m" and m: "length fs \<le> m" by (cases n) auto
  show ?case
    using Cons.IH [OF m] by (simp add: n chunk_not_Nil unchunk_chunk)
qed

lemma length_chunks: "length fs \<le> length (concat (map chunk fs))"
  by (induction fs) (simp_all add: chunk_def)

lemma ref_cbor_roundtrip: "decode ref_cbor (encode ref_cbor x) = Some x"
proof -
  let ?fs = "[raw_header x, content x, content_signature x]"
  have e: "encode ref_cbor x = concat (map chunk ?fs)" by (simp add: ref_cbor_def)
  have "unchunks (length (concat (map chunk ?fs))) (concat (map chunk ?fs)) = Some ?fs"
    by (rule unchunks_concat) (rule length_chunks)
  then show ?thesis unfolding e by (simp add: ref_cbor_def)
qed

lemma ref_header_roundtrip: "decodeHeader ref_header_lib (encodeHeader ref_header_lib h) = Some h"
proof -
  let ?fs = "[address h, owner h, replicate (version h) 2, metadata h, signature h] @ allowedUsers h"
  have e: "encodeHeader ref_header_lib h = concat (map chunk ?fs)" by (simp add: ref_header_lib_def)
  have "unchunks (length (concat (map chunk ?fs))) (concat (map chunk ?fs)) = Some ?fs"
    by (rule unchunks_concat) (rule length_chunks)
  then show ?thesis unfolding e by (simp add: ref_header_lib_def)
qed

lemma ref_crypto_sound:
  "verifySignature ref_crypto m (createSignature ref_crypto m k) (getPublicKey ref_crypto k)"
  by (simp add: ref_crypto_def)

lemma upgrade_same_header: "upgrade C H h h = Inl HeaderUpgradeRejected"
  by (simp add: upgrade_def)

lemma doc0_simps:
  "document doc0 = []"
  "header doc0 = header_create ref_crypto ref_header_lib [7] [9] [[8]] [1]"
  "emitted doc0 = []"
  by (simp_all add: doc0_def create_def new_Document_def ref_automerge_def)

lemma doc1_simps: "document doc1 = [5]" "header doc1 = header doc0"
  by (simp_all add: doc1_def change_def update_def updateLastAccessed_def emit_def Let_def
      doc0_simps(1) ref_automerge_def)

lemma doc2_simps: "document doc2 = [6]" "header doc2 = header doc0"
  by (simp_all add: doc2_def change_def update_def updateLastAccessed_def emit_def Let_def
      doc0_simps(1) ref_automerge_def)

lemma upgrade_to_header_v2:
  "upgrade ref_crypto ref_header_lib (header doc0) header_v2 = Inr header_v2"
  by (simp add: upgrade_def header_v2_def doc0_simps(2) header_create_def signedBody_def
      ref_crypto_def Let_def)

lemma doc3_simps: "document doc3 = [6]" "header doc3 = header_v2"
  by (simp_all add: doc3_def updateHeader_def updateLastAccessed_def emit_def doc2_simps
      upgrade_to_header_v2 Let_def)

lemma header_v2_users: "allowedUsers header_v2 = [[8], [4]]"
  by (simp add: header_v2_def Let_def)

lemma header_v2_import:
  "header_import ref_crypto ref_header_lib (header_export ref_header_lib header_v2) = Inr header_v2"
proof -
  have "verifySignature ref_crypto (signedBody ref_header_lib header_v2) (signature header_v2)
          (owner header_v2)"
    by (simp add: header_v2_def doc0_simps(2) header_create_def signedBody_def ref_crypto_def Let_def)
  then show ?thesis
    by (simp add: header_import_def header_export_def ref_header_roundtrip)
qed

lemma export3_by_owner:
  "fst (export ref_crypto ref_header_lib ref_automerge ref_cbor now [7] doc3) = Inr export3"
proof -
  have "hasAllowedUser (header doc3) (getPublicKey ref_crypto [7])"
    by (simp add: hasAllowedUser_def doc3_simps header_v2_users ref_crypto_def)
  then show ?thesis
    by (simp add: export_def get_data_def updateLastAccessed_def doc3_simps export3_def Let_def
        ref_automerge_def)
qed

lemma import_export3:
  "import_document ref_crypto ref_header_lib ref_automerge ref_cbor 3 export3 = Inr doc4"
proof -
  have o: "owner header_v2 = [8]"
    by (simp add: header_v2_def doc0_simps(2) header_create_def ref_crypto_def Let_def)
  have v: "header_verifySignature ref_crypto header_v2 [6] (createSignature ref_crypto [6] [7])"
    by (simp add: header_verifySignature_def o) (simp add: ref_crypto_def)
  have l: "load ref_automerge 3 [6] (new_Document ref_header_lib ref_automerge 3 header_v2)
             = (Inr (), doc4)"
    by (simp add: load_def updateLastAccessed_def new_Document_def doc4_def ref_automerge_def)
  have f: "fromRawHeader ref_crypto ref_header_lib ref_automerge 3
             (header_export ref_header_lib header_v2) [6] = Inr doc4"
    by (simp add: fromRawHeader_def header_v2_import l)
  show ?thesis
    using v by (simp add: import_document_def export3_def ref_cbor_roundtrip header_v2_import f)
qed

lemma doc4_simps: "document doc4 = [6]" "header doc4 = header_v2"
  by (simp_all add: doc4_def new_Document_def)

section \<open>Document: export, header update, merge, destroy, update\<close>

text \<open>
  Claim C1. For every document and private key, \<^verbatim>\<open>export\<close> succeeds exactly when the
  public key of the private key is an allowed user of the document's header; when it is
  not, \<^verbatim>\<open>export\<close> fails with \<open>UnauthorizedAccessError\<close> and the document (CRDT state,
  header and every other field) is what it was.
\<close>

theorem export_authorized_iff:
  "(\<exists>b. fst (export C H A B now privateKey s) = Inr b)
     = (getPublicKey C privateKey \<in> set (allowedUsers (header s)))
   \<and> (getPublicKey C privateKey \<notin> set (allowedUsers (header s))
        \<longrightarrow> export C H A B now privateKey s = (Inl UnauthorizedAccessError, s))"
  by (simp add: export_def hasAllowedUser_def get_data_def Let_def)

text \<open>Claim C1 on the reference document: the key \<open>[3]\<close> is refused and leaves the
  document alone, the owner's key \<open>[7]\<close> exports.\<close>

theorem export_authorized_iff_witness:
  "getPublicKey ref_crypto [3] \<notin> set (allowedUsers (header doc0))
   \<and> export ref_crypto ref_header_lib ref_automerge ref_cbor 5 [3] doc0
       = (Inl UnauthorizedAccessError, doc0)
   \<and> (\<exists>b. fst (export ref_crypto ref_header_lib ref_automerge ref_cbor 5 [7] doc0) = Inr b)"
proof -
  have n: "getPublicKey ref_crypto [3] \<notin> set (allowedUsers (header doc0))"
    by (simp add: doc0_simps(2) header_create_def ref_crypto_def Let_def)
  have y: "getPublicKey ref_crypto [7] \<in> set (allowedUsers (header doc0))"
    by (simp add: doc0_simps(2) header_create_def ref_crypto_def Let_def)
  show ?thesis
    using n y export_authorized_iff [of ref_crypto ref_header_lib ref_automerge ref_cbor 5 "[3]" doc0]
      export_authorized_iff [of ref_crypto ref_header_lib ref_automerge ref_cbor 5 "[7]" doc0]
    by simp
qed

text \<open>
  Claim C4. When \<^verbatim>\<open>DocumentHeader.upgrade\<close> accepts the candidate header,
  \<^verbatim>\<open>updateHeader\<close> returns true, stores the upgraded header and emits \<^verbatim>\<open>header-updated\<close>
  with it; when the upgrade is rejected, \<^verbatim>\<open>updateHeader\<close> returns false, the stored
  header and the CRDT state are unchanged and nothing is emitted.
\<close>

theorem updateHeader_result:
  "(upgrade C H (header s) h = Inr h' \<longrightarrow>
      fst (updateHeader C H now h s) = True
      \<and> header (snd (updateHeader C H now h s)) = h'
      \<and> emitted (snd (updateHeader C H now h s))
          = emitted s @ [\<lparr>payload = HeaderUpdated h', held_document = document s, held_header = h'\<rparr>])
   \<and> (upgrade C H (header s) h = Inl e \<longrightarrow>
      fst (updateHeader C H now h s) = False
      \<and> header (snd (updateHeader C H now h s)) = header s
      \<and> document (snd (updateHeader C H now h s)) = document s
      \<and> emitted (snd (updateHeader C H now h s)) = emitted s)"
  by (simp add: updateHeader_def updateLastAccessed_def emit_def Let_def)

text \<open>Claim C4 on the reference document: the owner's version 2 header is accepted and
  announced, the document's own header offered again is rejected without any effect.\<close>

theorem updateHeader_result_witness:
  "upgrade ref_crypto ref_header_lib (header doc0) header_v2 = Inr header_v2
   \<and> fst (updateHeader ref_crypto ref_header_lib 4 header_v2 doc0) = True
   \<and> header (snd (updateHeader ref_crypto ref_header_lib 4 header_v2 doc0)) = header_v2
   \<and> emitted (snd (updateHeader ref_crypto ref_header_lib 4 header_v2 doc0))
       = [\<lparr>payload = HeaderUpdated header_v2, held_document = [], held_header = header_v2\<rparr>]
   \<and> upgrade ref_crypto ref_header_lib (header doc0) (header doc0) = Inl HeaderUpgradeRejected
   \<and> fst (updateHeader ref_crypto ref_header_lib 4 (header doc0) doc0) = False
   \<and> header (snd (updateHeader ref_crypto ref_header_lib 4 (header doc0) doc0)) = header doc0
   \<and> emitted (snd (updateHeader ref_crypto ref_header_lib 4 (header doc0) doc0)) = []"
  using updateHeader_result [of ref_crypto ref_header_lib doc0 header_v2 header_v2 4]
    updateHeader_result
      [of ref_crypto ref_header_lib doc0 "header doc0" _ 4 HeaderUpgradeRejected]
  by (simp add: upgrade_to_header_v2 upgrade_same_header doc0_simps(1,3))

text \<open>
  Claim C5, as stated: \<^verbatim>\<open>mergeDocument\<close> merges the other document's CRDT state when
  the header upgrade is accepted or when the two headers are already equal. It fails on
  two documents that share their header and hold different changes: the upgrade of a
  header to itself is rejected (the version is not strictly greater), \<^verbatim>\<open>updateHeader\<close>
  returns false, and the merge that would give \<open>[5, 6]\<close> is not done.
\<close>

theorem mergeDocument_equal_headers_counterexample:
  "header doc2 = header doc1
   \<and> a_merge ref_automerge (document doc1) (a_clone ref_automerge (document doc2)) = Inr [5, 6]
   \<and> document (snd (mergeDocument ref_crypto ref_header_lib ref_automerge 2 doc2 doc1)) = [5]"
  by (simp add: mergeDocument_def updateHeader_def updateLastAccessed_def upgrade_same_header
      doc1_simps doc2_simps ref_automerge_def Let_def)

text \<open>
  Claim C5, amended: \<^verbatim>\<open>mergeDocument\<close> merges the other document's CRDT state exactly
  when the header upgrade from this document's header to the other's is accepted (the
  header is then the upgraded one); when the upgrade is rejected, and so in particular
  when the two headers are equal, the CRDT state and the header are left unchanged.
\<close>

theorem mergeDocument_merges_iff_upgrade:
  "(upgrade C H (header s) (header other) = Inr h'
      \<longrightarrow> a_merge A (document s) (a_clone A (document other)) = Inr m
      \<longrightarrow> fst (mergeDocument C H A now other s) = Inr ()
          \<and> document (snd (mergeDocument C H A now other s)) = m
          \<and> header (snd (mergeDocument C H A now other s)) = h')
   \<and> (upgrade C H (header s) (header other) = Inl e
      \<longrightarrow> fst (mergeDocument C H A now other s) = Inr ()
          \<and> document (snd (mergeDocument C H A now other s)) = document s
          \<and> header (snd (mergeDocument C H A now other s)) = header s)
   \<and> (header other = header s
      \<longrightarrow> document (snd (mergeDocument C H A now other s)) = document s)"
  by (simp add: mergeDocument_def updateHeader_def update_def updateLastAccessed_def emit_def
      upgrade_same_header Let_def)

text \<open>Claim C5, amended, on the reference documents: the document with the version 2
  header is merged into \<open>doc1\<close>, the document with the same header is not.\<close>

theorem mergeDocument_merges_iff_upgrade_witness:
  "upgrade ref_crypto ref_header_lib (header doc1) (header doc3) = Inr header_v2
   \<and> a_merge ref_automerge (document doc1) (a_clone ref_automerge (document doc3)) = Inr [5, 6]
   \<and> document (snd (mergeDocument ref_crypto ref_header_lib ref_automerge 2 doc3 doc1)) = [5, 6]
   \<and> header (snd (mergeDocument ref_crypto ref_header_lib ref_automerge 2 doc3 doc1)) = header_v2
   \<and> header doc2 = header doc1
   \<and> upgrade ref_crypto ref_header_lib (header doc1) (header doc2) = Inl HeaderUpgradeRejected
   \<and> document (snd (mergeDocument ref_crypto ref_header_lib ref_automerge 2 doc2 doc1)) = document doc1"
proof -
  have u: "upgrade ref_crypto ref_header_lib (header doc1) (header doc3) = Inr header_v2"
    by (simp add: doc1_simps doc3_simps upgrade_to_header_v2)
  have m: "a_merge ref_automerge (document doc1) (a_clone ref_automerge (document doc3)) = Inr [5, 6]"
    by (simp add: doc1_simps doc3_simps ref_automerge_def)
  have r: "upgrade ref_crypto ref_header_lib (header doc1) (header doc2) = Inl HeaderUpgradeRejected"
    by (simp add: doc1_simps doc2_simps upgrade_same_header)
  show ?thesis
    using u m r
      mergeDocument_merges_iff_upgrade
        [of ref_crypto ref_header_lib doc1 doc3 header_v2 ref_automerge "[5, 6]" 2 HeaderUpgradeRejected]
      mergeDocument_merges_iff_upgrade
        [of ref_crypto ref_header_lib doc1 doc2 header_v2 ref_automerge "[5, 6]" 2 HeaderUpgradeRejected]
    by (simp add: doc1_simps(2) doc2_simps(2))
qed

lemma load_ignores_destroyed:
  "load A now binary (s\<lparr>destroyed := b\<rparr>) = apsnd (\<lambda>t. t\<lparr>destroyed := b\<rparr>) (load A now binary s)"
  by (simp add: load_def updateLastAccessed_def Let_def split: option.splits)

lemma update_ignores_destroyed:
  "update A now callback (s\<lparr>destroyed := b\<rparr>)
     = apsnd (\<lambda>t. t\<lparr>destroyed := b\<rparr>) (update A now callback s)"
  by (simp add: update_def hasChanged_def updateLastAccessed_def emit_def Let_def split: sum.splits)

lemma updateHeader_ignores_destroyed:
  "updateHeader C H now h (s\<lparr>destroyed := b\<rparr>)
     = apsnd (\<lambda>t. t\<lparr>destroyed := b\<rparr>) (updateHeader C H now h s)"
  by (simp add: updateHeader_def updateLastAccessed_def emit_def Let_def split: sum.splits)

lemma changeAt_ignores_destroyed:
  "changeAt A now heads callback options (s\<lparr>destroyed := b\<rparr>)
     = apsnd (\<lambda>t. t\<lparr>destroyed := b\<rparr>) (changeAt A now heads callback options s)"
  by (simp add: changeAt_def update_ignores_destroyed split: prod.splits sum.splits)

lemma mergeDocument_ignores_destroyed:
  "mergeDocument C H A now other (s\<lparr>destroyed := b\<rparr>)
     = apsnd (\<lambda>t. t\<lparr>destroyed := b\<rparr>) (mergeDocument C H A now other s)"
  by (simp add: mergeDocument_def updateHeader_ignores_destroyed update_ignores_destroyed
      split: prod.splits sum.splits bool.splits)

text \<open>
  Claim C6, as stated: after \<^verbatim>\<open>destroy\<close> every later operation is a no-op that leaves
  the CRDT state unchanged. It fails for \<^verbatim>\<open>update\<close> on a destroyed document: no method
  reads the destroyed flag, and the CRDT state \<open>[5]\<close> is replaced by the callback's result.
\<close>

theorem destroy_then_update_counterexample:
  "destroyed (destroy doc1)
   \<and> document (destroy doc1) = [5]
   \<and> document (snd (update ref_automerge 3 (\<lambda>d. Inr [5, 9]) (destroy doc1))) = [5, 9]"
  by (simp add: destroy_def clearListeners_def emit_def update_def updateLastAccessed_def Let_def
      doc1_simps)

text \<open>
  Claim C6, amended: \<^verbatim>\<open>destroy\<close> sets the destroyed flag, emits \<^verbatim>\<open>destroyed\<close> and
  clears the listeners, and leaves the CRDT state and the header unchanged; the getters
  return that state. No later operation consults the flag: \<^verbatim>\<open>load\<close>, \<^verbatim>\<open>update\<close>,
  \<^verbatim>\<open>change\<close>, \<^verbatim>\<open>changeAt\<close>, \<^verbatim>\<open>updateHeader\<close> and \<^verbatim>\<open>mergeDocument\<close> do on a document whose
  flag is set what they do on a live one, and \<^verbatim>\<open>update\<close> on a destroyed document still
  replaces the CRDT state by the callback's result.
\<close>

theorem destroy_then_operations:
  "destroyed (destroy s) \<and> listeners (destroy s) = []
   \<and> emitted (destroy s)
       = emitted s @ [\<lparr>payload = Destroyed, held_document = document s, held_header = header s\<rparr>]
   \<and> document (destroy s) = document s \<and> header (destroy s) = header s
   \<and> fst (get_data now (destroy s)) = document s
   \<and> fst (get_header now (destroy s)) = header s
   \<and> get_id (destroy s) = get_id s
   \<and> get_destroyed (destroy s)
   \<and> load A now binary (s\<lparr>destroyed := True\<rparr>)
       = apsnd (\<lambda>t. t\<lparr>destroyed := True\<rparr>) (load A now binary s)
   \<and> update A now callback (s\<lparr>destroyed := True\<rparr>)
       = apsnd (\<lambda>t. t\<lparr>destroyed := True\<rparr>) (update A now callback s)
   \<and> change A now fn options (s\<lparr>destroyed := True\<rparr>)
       = apsnd (\<lambda>t. t\<lparr>destroyed := True\<rparr>) (change A now fn options s)
   \<and> changeAt A now heads fn options (s\<lparr>destroyed := True\<rparr>)
       = apsnd (\<lambda>t. t\<lparr>destroyed := True\<rparr>) (changeAt A now heads fn options s)
   \<and> updateHeader C H now h (s\<lparr>destroyed := True\<rparr>)
       = apsnd (\<lambda>t. t\<lparr>destroyed := True\<rparr>) (updateHeader C H now h s)
   \<and> mergeDocument C H A now other (s\<lparr>destroyed := True\<rparr>)
       = apsnd (\<lambda>t. t\<lparr>destroyed := True\<rparr>) (mergeDocument C H A now other s)
   \<and> (callback (document s) = Inr new
        \<longrightarrow> document (snd (update A now callback (destroy s))) = new)"
proof -
  have d: "destroyed (destroy s) \<and> listeners (destroy s) = []
   \<and> emitted (destroy s)
       = emitted s @ [\<lparr>payload = Destroyed, held_document = document s, held_header = header s\<rparr>]
   \<and> document (destroy s) = document s \<and> header (destroy s) = header s"
    by (simp add: destroy_def clearListeners_def emit_def)
  have g: "fst (get_data now (destroy s)) = document s
   \<and> fst (get_header now (destroy s)) = header s
   \<and> get_id (destroy s) = get_id s
   \<and> get_destroyed (destroy s)"
    by (simp add: destroy_def clearListeners_def emit_def get_data_def get_header_def get_id_def
        get_destroyed_def updateLastAccessed_def Let_def)
  have u: "callback (document s) = Inr new
        \<longrightarrow> document (snd (update A now callback (destroy s))) = new"
    by (simp add: update_def destroy_def clearListeners_def emit_def updateLastAccessed_def Let_def)
  show ?thesis
    using d g u
    by (simp only: load_ignores_destroyed update_ignores_destroyed change_def
        changeAt_ignores_destroyed updateHeader_ignores_destroyed mergeDocument_ignores_destroyed
        simp_thms)
qed

text \<open>Claim C6, amended, on the reference document: the flag is set, the listeners are
  gone, and an update after \<^verbatim>\<open>destroy\<close> installs the callback's result.\<close>

theorem destroy_then_operations_witness:
  "(\<lambda>d. Inr [5, 9] :: error + bytes) (document doc1) = Inr [5, 9]
   \<and> document (snd (update ref_automerge 3 (\<lambda>d. Inr [5, 9]) (destroy doc1))) = [5, 9]
   \<and> destroyed (destroy doc1) \<and> listeners (destroy doc1) = []"
  using destroy_then_operations
    [where s = doc1 and callback = "\<lambda>d. Inr [5, 9]" and new = "[5, 9]" and A = ref_automerge and now = 3]
  by simp

text \<open>
  Claim C7. A document created by its owner with the owner as only allowed user, after
  one change that sets \<^verbatim>\<open>data.count\<close> to 1, is exported with the owner's private key and
  imported again: the import succeeds, \<^verbatim>\<open>data.count\<close> of the imported document is 1 and
  its heads are those of the original. The external libraries are assumed to do their
  part: the owner's signatures verify under the owner's public key, the two codecs decode
  what they encoded, loading a saved CRDT document into a fresh one restores its heads and
  its count, and the change sets the count to 1. \<open>count\<close> reads \<^verbatim>\<open>data.count\<close>.
\<close>

theorem create_export_import_roundtrip:
  assumes sign_ok: "\<And>m. verifySignature C m (createSignature C m privateKey) (getPublicKey C privateKey)"
    and hdr_rt: "\<And>h. decodeHeader H (encodeHeader H h) = Some h"
    and cbor_rt: "\<And>x. decode B (encode B x) = Some x"
    and load_rt: "\<And>d. \<exists>d'. a_loadIncremental A (a_init A) (a_save A d) = Some d'
                      \<and> a_getHeads A d' = a_getHeads A d \<and> count d' = count d"
    and chg: "a_change A (a_init A) options setCount = Inr d1"
    and cnt: "count d1 = Some (1::int)"
  shows "\<exists>s1 raw s2 s3.
      change A t1 setCount options
        (create C H A t0 privateKey nonce [getPublicKey C privateKey] md) = (Inr d1, s1)
    \<and> export C H A B t2 privateKey s1 = (Inr raw, s2)
    \<and> import_document C H A B t3 raw = Inr s3
    \<and> count (document s3) = Some 1
    \<and> a_getHeads A (document s3) = a_getHeads A (document s1)"
proof -
  define h0 where "h0 = header_create C H privateKey nonce [getPublicKey C privateKey] md"
  define s0 where "s0 = create C H A t0 privateKey nonce [getPublicKey C privateKey] md"
  have s0: "document s0 = a_init A" "header s0 = h0"
    by (simp_all add: s0_def h0_def create_def new_Document_def)
  have h0: "owner h0 = getPublicKey C privateKey" "allowedUsers h0 = [getPublicKey C privateKey]"
    "signature h0 = createSignature C (signedBody H h0) privateKey"
    by (simp_all add: h0_def header_create_def signedBody_def Let_def)
  obtain r1 s1 where c: "change A t1 setCount options s0 = (r1, s1)"
    by (cases "change A t1 setCount options s0")
  have s1: "r1 = Inr d1" "document s1 = d1" "header s1 = h0"
    using c chg s0 by (auto simp add: change_def update_def updateLastAccessed_def emit_def Let_def)
  define raw where "raw = encode B (SignedExport (encodeHeader H h0) (a_save A d1)
                            (createSignature C (a_save A d1) privateKey))"
  obtain s2 where e: "export C H A B t2 privateKey s1 = (Inr raw, s2)"
    by (simp add: export_def hasAllowedUser_def get_data_def updateLastAccessed_def header_export_def
        Let_def s1 h0 raw_def)
  have hi: "header_import C H (encodeHeader H h0) = Inr h0"
    using sign_ok [of "signedBody H h0"] by (simp add: header_import_def hdr_rt h0)
  obtain d' where l: "a_loadIncremental A (a_init A) (a_save A d1) = Some d'"
    "a_getHeads A d' = a_getHeads A d1" "count d' = count d1"
    using load_rt [of d1] by blast
  define s3 where "s3 = (updateLastAccessed t3 (new_Document H A t3 h0))\<lparr>document := d'\<rparr>"
  have f: "fromRawHeader C H A t3 (encodeHeader H h0) (a_save A d1) = Inr s3"
    by (simp add: fromRawHeader_def hi load_def updateLastAccessed_def new_Document_def l(1) s3_def Let_def)
  have i: "import_document C H A B t3 raw = Inr s3"
    using sign_ok [of "a_save A d1"]
    by (simp add: import_document_def raw_def cbor_rt hi header_verifySignature_def h0(1) f)
  have "document s3 = d'" by (simp add: s3_def)
  with c e i l s1 cnt show ?thesis unfolding s0_def by auto
qed

text \<open>Claim C7 on the reference instances, whose codecs and CRDT satisfy the
  assumptions: the change \<open>1\<close> survives export and import.\<close>

theorem create_export_import_roundtrip_witness:
  "\<exists>s1 raw s2 s3.
      change ref_automerge 1 1 ()
        (create ref_crypto ref_header_lib ref_automerge 0 [7] [9] [getPublicKey ref_crypto [7]] [1])
          = (Inr [1], s1)
    \<and> export ref_crypto ref_header_lib ref_automerge ref_cbor 2 [7] s1 = (Inr raw, s2)
    \<and> import_document ref_crypto ref_header_lib ref_automerge ref_cbor 3 raw = Inr s3
    \<and> ref_count (document s3) = Some 1
    \<and> a_getHeads ref_automerge (document s3) = a_getHeads ref_automerge (document s1)"
proof -
  have l: "\<And>d. \<exists>d'. a_loadIncremental ref_automerge (a_init ref_automerge) (a_save ref_automerge d) = Some d'
                      \<and> a_getHeads ref_automerge d' = a_getHeads ref_automerge d
                      \<and> ref_count d' = ref_count d"
    by (simp add: ref_automerge_def)
  have c: "a_change ref_automerge (a_init ref_automerge) () 1 = Inr [1]"
    by (simp add: ref_automerge_def)
  have n: "ref_count [1] = Some 1"
    by (simp add: ref_count_def)
  show ?thesis
    by (rule create_export_import_roundtrip
        [of ref_crypto "[7]" ref_header_lib ref_cbor ref_automerge ref_count "()" 1 "[1]",
         OF ref_crypto_sound ref_header_roundtrip ref_cbor_roundtrip l c n])
qed

lemma heads_same_iff:
  assumes "distinct xs" "distinct ys"
  shows "(length xs = length ys \<and> list_all (\<lambda>h. h \<in> set ys) xs) = (set xs = set ys)"
proof
  assume a: "length xs = length ys \<and> list_all (\<lambda>h. h \<in> set ys) xs"
  then have sub: "set xs \<subseteq> set ys" by (auto simp: list_all_iff)
  have "card (set xs) = card (set ys)"
    using a assms by (simp add: distinct_card)
  with sub show "set xs = set ys" by (simp add: card_subset_eq)
next
  assume e: "set xs = set ys"
  have "length xs = length ys"
    using assms e by (metis distinct_card)
  with e show "length xs = length ys \<and> list_all (\<lambda>h. h \<in> set ys) xs"
    by (simp add: list_all_iff)
qed

text \<open>
  Claim C8. For a callback that returns a CRDT document, \<^verbatim>\<open>update\<close> emits \<^verbatim>\<open>change\<close>
  exactly when the set of heads of the result differs from the set of heads of the
  current state; the emission happens while the document still holds the old state; and
  the state is replaced by the result whether the heads changed or not. Heads, as the
  CRDT library returns them, are lists without repetition.
\<close>

theorem update_change_event:
  assumes "callback (document s) = Inr new"
    and "distinct (a_getHeads A (document s))"
    and "distinct (a_getHeads A new)"
  shows "fst (update A now callback s) = Inr new
    \<and> document (snd (update A now callback s)) = new
    \<and> emitted (snd (update A now callback s)) =
        (if set (a_getHeads A new) \<noteq> set (a_getHeads A (document s))
         then emitted s @ [\<lparr>payload = Change new, held_document = document s, held_header = header s\<rparr>]
         else emitted s)"
proof -
  have h: "hasChanged A (updateLastAccessed now s) new
             = (set (a_getHeads A (document s)) \<noteq> set (a_getHeads A new))"
    using heads_same_iff [OF assms(2) assms(3)]
    by (auto simp add: hasChanged_def updateLastAccessed_def Let_def)
  show ?thesis
    using assms(1) h
    by (auto simp add: update_def updateLastAccessed_def emit_def Let_def)
qed

text \<open>Claim C8 on the reference document: a first change moves the heads, so \<^verbatim>\<open>change\<close>
  is emitted while the document still holds the empty state, and the state is replaced.\<close>

theorem update_change_event_witness:
  "(\<lambda>d. Inr (d @ [5]) :: error + bytes) (document doc0) = Inr [5]
   \<and> distinct (a_getHeads ref_automerge (document doc0))
   \<and> distinct (a_getHeads ref_automerge [5])
   \<and> fst (update ref_automerge 1 (\<lambda>d. Inr (d @ [5])) doc0) = Inr [5]
   \<and> document (snd (update ref_automerge 1 (\<lambda>d. Inr (d @ [5])) doc0)) = [5]
   \<and> emitted (snd (update ref_automerge 1 (\<lambda>d. Inr (d @ [5])) doc0))
       = [\<lparr>payload = Change [5], held_document = [], held_header = header doc0\<rparr>]"
proof -
  have c: "(\<lambda>d. Inr (d @ [5]) :: error + bytes) (document doc0) = Inr [5]"
    by (simp add: doc0_simps(1))
  have a: "distinct (a_getHeads ref_automerge (document doc0))"
    by (simp add: doc0_simps(1) ref_automerge_def ref_heads_def)
  have b: "distinct (a_getHeads ref_automerge [5])"
    by (simp add: ref_automerge_def ref_heads_def)
  show ?thesis
    using c a b
      update_change_event
        [where callback = "\<lambda>d. Inr (d @ [5])" and s = doc0 and new = "[5]"
           and A = ref_automerge and now = 1]
    by (simp add: doc0_simps(1,3) ref_automerge_def ref_heads_def)
qed

section \<open>MessageExchanger: inbound and outbound validation\<close>

lemma parse_fields_type:
  "parse_fields ((''type'', ZodLiteral lit) # shape) props = Some out
     \<Longrightarrow> map_of out ''type'' = Some (JString lit)"
  by (auto split: option.splits if_splits)

lemma typed_object_type:
  "parse_shape (typed_object lit shape) i = Some d \<Longrightarrow> data_type d = Some (JString lit)"
  by (auto simp add: typed_object_def z_object_def data_type_def split: jsvalue.splits option.splits if_splits)


lemma find_Some_set: "find P xs = Some x \<Longrightarrow> x \<in> set xs \<and> P x"
  by (induction xs) (auto split: if_splits)

lemma exchanger0_simps:
  "clientHandler exchanger0 = Some 0"
  "verifier exchanger0 = [RequestDocumentMessageSchema, ResponseDocumentMessageSchema]"
  "emitted_messages exchanger0 = []"
  "delegated exchanger0 = []"
  "console_errors exchanger0 = []"
  by (simp_all add: exchanger0_def setClient_def new_MessageExchanger_def)

lemma safeParse_good_request:
  "safeParse [RequestDocumentMessageSchema, ResponseDocumentMessageSchema] good_request = Inr good_request"
  by (simp add: safeParse_def good_request_def discriminator_def RequestDocumentMessageSchema_def
      typed_object_def z_object_def)

lemma safeParse_bad_request:
  "safeParse [RequestDocumentMessageSchema, ResponseDocumentMessageSchema] bad_request = Inl invalid_option"
  by (simp add: safeParse_def bad_request_def discriminator_def RequestDocumentMessageSchema_def
      typed_object_def z_object_def)

lemma declared_schemas_keep_literal:
  "\<forall>schema \<in> set [RequestDocumentMessageSchema, ResponseDocumentMessageSchema].
     \<forall>i d. parse_shape schema i = Some d \<longrightarrow> data_type d = Some (JString (type_literal schema))"
  using typed_object_type
  by (auto simp add: RequestDocumentMessageSchema_def ResponseDocumentMessageSchema_def)
    (auto simp add: typed_object_def)

text \<open>
  Claim C3. \<^verbatim>\<open>handle\<close> never throws. When the payload fails the discriminated union,
  no event is emitted and the error goes to \<^verbatim>\<open>console.error\<close> only. When it parses,
  exactly one event is emitted: its name is the literal of the option that the payload's
  \<^verbatim>\<open>type\<close> selected, and its data is the output of that option's schema on the payload.
  The options are those of a zod discriminated union: the output of each carries the
  option's literal as \<^verbatim>\<open>type\<close>.
\<close>

theorem handle_emits_only_parsed:
  assumes "\<forall>schema \<in> set (verifier x). \<forall>i d. parse_shape schema i = Some d
             \<longrightarrow> data_type d = Some (JString (type_literal schema))"
  shows "fst (handle message x) = Inr ()
   \<and> (\<forall>e. safeParse (verifier x) (msg_data message) = Inl e \<longrightarrow>
         emitted_messages (snd (handle message x)) = emitted_messages x
         \<and> console_errors (snd (handle message x)) = console_errors x @ [e])
   \<and> (\<forall>d. safeParse (verifier x) (msg_data message) = Inr d \<longrightarrow>
         (\<exists>schema \<in> set (verifier x).
            discriminator (msg_data message) = Some (type_literal schema)
            \<and> parse_shape schema (msg_data message) = Some d
            \<and> emitted_messages (snd (handle message x))
                = emitted_messages x @ [(JString (type_literal schema), message\<lparr>msg_data := d\<rparr>)]))"
proof (intro conjI allI impI)
  show "fst (handle message x) = Inr ()"
    by (simp add: handle_def split: sum.splits)
next
  fix e assume "safeParse (verifier x) (msg_data message) = Inl e"
  then show "emitted_messages (snd (handle message x)) = emitted_messages x"
    and "console_errors (snd (handle message x)) = console_errors x @ [e]"
    by (simp_all add: handle_def)
next
  fix d assume p: "safeParse (verifier x) (msg_data message) = Inr d"
  then obtain t schema where t: "discriminator (msg_data message) = Some t"
    and f: "find (\<lambda>schema. type_literal schema = t) (verifier x) = Some schema"
    and s: "parse_shape schema (msg_data message) = Some d"
    by (auto simp add: safeParse_def split: jsvalue.splits option.splits)
  from f have m: "schema \<in> set (verifier x)" and l: "type_literal schema = t"
    using find_Some_set [OF f] by simp_all
  from assms m s have ty: "data_type d = Some (JString (type_literal schema))" by blast
  have "emitted_messages (snd (handle message x))
          = emitted_messages x @ [(JString (type_literal schema), message\<lparr>msg_data := d\<rparr>)]"
    by (simp add: handle_def p ty emit_message_def)
  with m t l s show "\<exists>schema \<in> set (verifier x).
            discriminator (msg_data message) = Some (type_literal schema)
            \<and> parse_shape schema (msg_data message) = Some d
            \<and> emitted_messages (snd (handle message x))
                = emitted_messages x @ [(JString (type_literal schema), message\<lparr>msg_data := d\<rparr>)]"
    by blast
qed

text \<open>Claim C3 on the declared schemas: the request of scenario S6, whose
  \<^verbatim>\<open>documentId\<close> is the number 42, emits nothing and is logged; a well-formed request is
  emitted as \<^verbatim>\<open>request-document\<close>.\<close>

theorem handle_emits_only_parsed_witness:
  "safeParse (verifier exchanger0) bad_request = Inl invalid_option
   \<and> fst (handle \<lparr>msg_from = requester, msg_data = bad_request\<rparr> exchanger0) = Inr ()
   \<and> emitted_messages (snd (handle \<lparr>msg_from = requester, msg_data = bad_request\<rparr> exchanger0)) = []
   \<and> console_errors (snd (handle \<lparr>msg_from = requester, msg_data = bad_request\<rparr> exchanger0))
       = [invalid_option]
   \<and> safeParse (verifier exchanger0) good_request = Inr good_request
   \<and> emitted_messages (snd (handle \<lparr>msg_from = requester, msg_data = good_request\<rparr> exchanger0))
       = [(JString ''request-document'', \<lparr>msg_from = requester, msg_data = good_request\<rparr>)]"
proof -
  have wf: "\<forall>schema \<in> set (verifier exchanger0).
     \<forall>i d. parse_shape schema i = Some d \<longrightarrow> data_type d = Some (JString (type_literal schema))"
    using declared_schemas_keep_literal by (simp only: exchanger0_simps(2))
  have b: "safeParse (verifier exchanger0) bad_request = Inl invalid_option"
    by (simp add: exchanger0_simps(2) safeParse_bad_request)
  have g: "safeParse (verifier exchanger0) good_request = Inr good_request"
    by (simp add: exchanger0_simps(2) safeParse_good_request)
  have gd: "discriminator good_request = Some ''request-document''"
    by (simp add: discriminator_def good_request_def)
  have lit: "type_literal RequestDocumentMessageSchema = ''request-document''"
    "type_literal ResponseDocumentMessageSchema = ''document-response''"
    by (simp_all add: RequestDocumentMessageSchema_def ResponseDocumentMessageSchema_def typed_object_def)
  show ?thesis
    using b g
      handle_emits_only_parsed [OF wf, of "\<lparr>msg_from = requester, msg_data = bad_request\<rparr>"]
      handle_emits_only_parsed [OF wf, of "\<lparr>msg_from = requester, msg_data = good_request\<rparr>"]
    by (auto simp add: exchanger0_simps gd lit)
qed

text \<open>
  Claim C10. On an exchanger that has no signaling client, which is the state before any
  \<^verbatim>\<open>setClient\<close>, \<^verbatim>\<open>sendMessage\<close> fails and nothing is handed to any client. Once a client
  is set, a payload that fails the union schema fails \<^verbatim>\<open>sendMessage\<close> with nothing
  delegated, and a payload that parses is delegated to the client as parsed.
\<close>

theorem sendMessage_requires_client_and_schema:
  "sendMessage cs d to (new_MessageExchanger schemas)
     = (Inl NoSignalingClient, new_MessageExchanger schemas)
   \<and> (clientHandler x = None \<longrightarrow> sendMessage cs d to x = (Inl NoSignalingClient, x))
   \<and> clientHandler (setClient client x) = Some client
   \<and> (clientHandler x = Some client \<longrightarrow> safeParse (verifier x) d = Inl e
        \<longrightarrow> sendMessage cs d to x = (Inl SchemaRejected, x))
   \<and> (clientHandler x = Some client \<longrightarrow> safeParse (verifier x) d = Inr parsed
        \<longrightarrow> delegated (snd (sendMessage cs d to x))
              = delegated x @ [(client, \<lparr>out_to = to, out_data = parsed\<rparr>)])"
  by (simp add: sendMessage_def new_MessageExchanger_def setClient_def Let_def)

text \<open>Claim C10 on the declared schemas: no client, a rejected payload, and a delegated
  payload.\<close>

theorem sendMessage_requires_client_and_schema_witness:
  "sendMessage (\<lambda>c e. True) good_request None
      (new_MessageExchanger [RequestDocumentMessageSchema, ResponseDocumentMessageSchema] :: nat MessageExchanger)
     = (Inl NoSignalingClient,
        new_MessageExchanger [RequestDocumentMessageSchema, ResponseDocumentMessageSchema])
   \<and> clientHandler exchanger0 = Some 0
   \<and> safeParse (verifier exchanger0) bad_request = Inl invalid_option
   \<and> sendMessage (\<lambda>c e. True) bad_request None exchanger0 = (Inl SchemaRejected, exchanger0)
   \<and> safeParse (verifier exchanger0) good_request = Inr good_request
   \<and> delegated (snd (sendMessage (\<lambda>c e. True) good_request None exchanger0))
       = [(0, \<lparr>out_to = None, out_data = good_request\<rparr>)]"
proof -
  have b: "safeParse (verifier exchanger0) bad_request = Inl invalid_option"
    by (simp add: exchanger0_simps(2) safeParse_bad_request)
  have g: "safeParse (verifier exchanger0) good_request = Inr good_request"
    by (simp add: exchanger0_simps(2) safeParse_good_request)
  show ?thesis
    using b g
      sendMessage_requires_client_and_schema
        [where cs = "\<lambda>c e. True" and d = bad_request and to = None and x = exchanger0
           and client = 0 and e = invalid_option
           and schemas = "[RequestDocumentMessageSchema, ResponseDocumentMessageSchema]"]
      sendMessage_requires_client_and_schema
        [where cs = "\<lambda>c e. True" and d = good_request and to = None and x = exchanger0
           and client = 0 and parsed = good_request
           and schemas = "[RequestDocumentMessageSchema, ResponseDocumentMessageSchema]"]
    by (simp add: exchanger0_simps)
qed

section \<open>DocumentSharingClient: answering a request for a document\<close>

lemma setDocument_frame:
  "exchanger (snd (setDocument C H A now d st)) = exchanger st"
  "created_peers (snd (setDocument C H A now d st)) = created_peers st"
  by (simp_all add: setDocument_def split: option.splits prod.splits sum.splits)

lemma findDocument_frame:
  "exchanger (snd (findDocument C H A now ident st)) = exchanger st"
  "created_peers (snd (findDocument C H A now ident st)) = created_peers st"
proof -
  have "exchanger (snd (findDocument C H A now ident st)) = exchanger st
      \<and> created_peers (snd (findDocument C H A now ident st)) = created_peers st"
  proof (cases "documents st ident")
    case (Some d)
    then show ?thesis by (simp add: findDocument_def)
  next
    case None
    show ?thesis
    proof (cases "stored st ident")
      case None
      with \<open>documents st ident = None\<close> show ?thesis by (simp add: findDocument_def)
    next
      case (Some p)
      obtain rh bin where p: "p = (rh, bin)" by (cases p)
      show ?thesis
      proof (cases "fromRawHeader C H A now rh bin")
        case (Inl e)
        with \<open>documents st ident = None\<close> Some p show ?thesis by (simp add: findDocument_def)
      next
        case (Inr d)
        obtain r st' where s: "setDocument C H A now d st = (r, st')" by (cases "setDocument C H A now d st")
        have "exchanger st' = exchanger st" "created_peers st' = created_peers st"
          using setDocument_frame [of C H A now d st] s by simp_all
        with \<open>documents st ident = None\<close> Some p Inr s show ?thesis
          by (cases r) (simp_all add: findDocument_def)
      qed
    qed
  qed
  then show "exchanger (snd (findDocument C H A now ident st)) = exchanger st"
    "created_peers (snd (findDocument C H A now ident st)) = created_peers st" by simp_all
qed

lemma safeParse_document_response:
  "safeParse [RequestDocumentMessageSchema, ResponseDocumentMessageSchema, sig] (document_response b)
     = Inr (document_response b)"
  by (simp add: safeParse_def document_response_def discriminator_def RequestDocumentMessageSchema_def
      ResponseDocumentMessageSchema_def typed_object_def z_object_def)


lemma export_ignores_lastAccessed:
  "fst (export C H A B now privateKey (updateLastAccessed t d)) = fst (export C H A B now privateKey d)"
  by (simp add: export_def updateLastAccessed_def get_data_def Let_def)

lemma client0_eq:
  "client0 = (new_DocumentSharingClient ref_signal_schema 0 Map.empty)
               \<lparr>documents := [get_id doc4 \<mapsto> doc4]\<rparr>"
  by (simp add: client0_def on_document_response_def import_export3 setDocument_def
      new_DocumentSharingClient_def)

lemma client0_simps:
  "clientHandler (exchanger client0) = Some 0"
  "verifier (exchanger client0)
     = [RequestDocumentMessageSchema, ResponseDocumentMessageSchema, ref_signal_schema]"
  "delegated (exchanger client0) = []"
  "created_peers client0 = []"
  "documents client0 (get_id doc4) = Some doc4"
  by (simp_all add: client0_eq new_DocumentSharingClient_def setClient_def new_MessageExchanger_def)

lemma client0_find:
  "findDocument C H A now (get_id doc4) client0 = (Inr (Some doc4), client0)"
  by (simp add: findDocument_def client0_simps(5))

text \<open>
  Claim C2, as stated: a \<^verbatim>\<open>document-response\<close> is sent and an initiator peer is created
  if and only if the document is found locally and the sender is an allowed user. It
  fails when the local client is not itself an allowed user of the document it holds,
  here a client with private key \<open>[2]\<close> that received the owner's export in a
  \<^verbatim>\<open>document-response\<close>: the document is found, the requester \<open>[4]\<close> is allowed, but
  \<^verbatim>\<open>export\<close> refuses the local key, so nothing is sent and no peer is created.
\<close>

theorem request_document_local_not_allowed_counterexample:
  "fst (findDocument ref_crypto ref_header_lib ref_automerge 1 (get_id doc4) client0) = Inr (Some doc4)
   \<and> hasAllowedUser (header doc4) (publicKey requester)
   \<and> delegated (exchanger (snd (on_request_document ref_crypto ref_header_lib ref_automerge ref_cbor
        (\<lambda>c e. True) 1 [2] requester (get_id doc4) client0))) = []
   \<and> created_peers (snd (on_request_document ref_crypto ref_header_lib ref_automerge ref_cbor
        (\<lambda>c e. True) 1 [2] requester (get_id doc4) client0)) = []"
proof -
  have sa: "hasAllowedUser (header doc4) (publicKey requester)"
    by (simp add: hasAllowedUser_def doc4_simps header_v2_users requester_def)
  have nl: "\<not> hasAllowedUser (header doc4) (getPublicKey ref_crypto [2])"
    by (simp add: hasAllowedUser_def doc4_simps header_v2_users ref_crypto_def)
  have e: "export ref_crypto ref_header_lib ref_automerge ref_cbor 1 [2] (updateLastAccessed 1 doc4)
             = (Inl UnauthorizedAccessError, updateLastAccessed 1 doc4)"
    using nl by (simp add: export_def updateLastAccessed_def)
  have "on_request_document ref_crypto ref_header_lib ref_automerge ref_cbor
          (\<lambda>c e. True) 1 [2] requester (get_id doc4) client0
        = (Inl UnauthorizedAccessError,
           client0\<lparr>documents := (documents client0)(get_id doc4 \<mapsto> updateLastAccessed 1 doc4)\<rparr>)"
    using sa e
    by (simp add: on_request_document_def client0_find get_header_def Let_def updateLastAccessed_def)
  then show ?thesis
    using sa by (simp add: client0_find client0_simps(3,4))
qed

text \<open>
  Claim C2, amended: a \<^verbatim>\<open>document-response\<close> carrying the signed export is handed to the
  signaling client, addressed to the sender, if and only if the document is found locally,
  the sender's public key is an allowed user of its header, and the local client's own
  public key is an allowed user too; the initiator peer is created when in addition the
  send succeeds. In every other case, and so for every non-allowed requester, no
  \<^verbatim>\<open>document-response\<close> is sent and no peer is created.
\<close>

theorem request_document_gating:
  assumes ready: "clientHandler (exchanger st) = Some client"
    and schemas: "verifier (exchanger st)
                    = [RequestDocumentMessageSchema, ResponseDocumentMessageSchema, SignalMessageSchema]"
    and found: "findDocument C H A now documentId st = (r, st1)"
    and run: "on_request_document C H A B cs now privateKey sndr documentId st = (res, st')"
  shows "(\<forall>d. r = Inr (Some d)
            \<and> publicKey sndr \<in> set (allowedUsers (header d))
            \<and> getPublicKey C privateKey \<in> set (allowedUsers (header d))
          \<longrightarrow> (\<exists>raw. fst (export C H A B now privateKey d) = Inr raw
                 \<and> delegated (exchanger st')
                     = delegated (exchanger st)
                       @ [(client, \<lparr>out_to = Some (reply_to sndr), out_data = document_response raw\<rparr>)]
                 \<and> created_peers st'
                     = (if cs client \<lparr>out_to = Some (reply_to sndr), out_data = document_response raw\<rparr>
                        then created_peers st @ [(True, documentId, sndr)]
                        else created_peers st)))
     \<and> ((\<forall>d. r = Inr (Some d) \<longrightarrow>
             publicKey sndr \<notin> set (allowedUsers (header d))
             \<or> getPublicKey C privateKey \<notin> set (allowedUsers (header d)))
          \<longrightarrow> delegated (exchanger st') = delegated (exchanger st)
              \<and> created_peers st' = created_peers st)"
proof -
  have x1: "exchanger st1 = exchanger st" and p1: "created_peers st1 = created_peers st"
    using findDocument_frame [of C H A now documentId st] found by simp_all
  show ?thesis
  proof (cases r)
    case (Inl e)
    with found run x1 p1 show ?thesis
      by (auto simp add: on_request_document_def)
  next
    case (Inr found_doc)
    show ?thesis
    proof (cases found_doc)
      case None
      with Inr found run x1 p1 show ?thesis
        by (auto simp add: on_request_document_def)
    next
      case (Some d)
      note r = Inr Some
      show ?thesis
      proof (cases "publicKey sndr \<in> set (allowedUsers (header d))")
        case False
        with r found run x1 p1 show ?thesis
          by (auto simp add: on_request_document_def get_header_def updateLastAccessed_def
              hasAllowedUser_def Let_def)
      next
        case sa: True
        show ?thesis
        proof (cases "getPublicKey C privateKey \<in> set (allowedUsers (header d))")
          case False
          with sa r found run x1 p1 show ?thesis
            by (auto simp add: on_request_document_def get_header_def updateLastAccessed_def
                hasAllowedUser_def export_def Let_def)
        next
          case la: True
          define raw where "raw = encode B (SignedExport (header_export H (header d)) (a_save A (document d))
                                     (createSignature C (a_save A (document d)) privateKey))"
          have e: "export C H A B now privateKey (updateLastAccessed now d)
                     = (Inr raw, updateLastAccessed now d)"
            using la
            by (simp add: export_def hasAllowedUser_def get_data_def updateLastAccessed_def raw_def Let_def)
          have e': "fst (export C H A B now privateKey d) = Inr raw"
            using e export_ignores_lastAccessed [of C H A B now privateKey now d] by simp
          have sp: "safeParse (verifier (exchanger st)) (document_response raw) = Inr (document_response raw)"
            by (simp add: schemas safeParse_document_response)
          have "delegated (exchanger st')
                     = delegated (exchanger st)
                       @ [(client, \<lparr>out_to = Some (reply_to sndr), out_data = document_response raw\<rparr>)]
                 \<and> created_peers st'
                     = (if cs client \<lparr>out_to = Some (reply_to sndr), out_data = document_response raw\<rparr>
                        then created_peers st @ [(True, documentId, sndr)]
                        else created_peers st)"
            using sa r found run x1 p1 e sp ready
            by (auto simp add: on_request_document_def get_header_def hasAllowedUser_def
                sendMessage_def Let_def updateLastAccessed_def)
          with e' sa la r show ?thesis by auto
        qed
      qed
    qed
  qed
qed


text \<open>Claim C2, amended, on the reference client with the owner's key \<open>[7]\<close>: the
  response goes to the requester and the peer is created.\<close>

theorem request_document_gating_witness:
  "clientHandler (exchanger client0) = Some 0
   \<and> findDocument ref_crypto ref_header_lib ref_automerge 1 (get_id doc4) client0
       = (Inr (Some doc4), client0)
   \<and> publicKey requester \<in> set (allowedUsers (header doc4))
   \<and> getPublicKey ref_crypto [7] \<in> set (allowedUsers (header doc4))
   \<and> (\<exists>raw. fst (export ref_crypto ref_header_lib ref_automerge ref_cbor 1 [7] doc4) = Inr raw
        \<and> delegated (exchanger (snd (on_request_document ref_crypto ref_header_lib ref_automerge
            ref_cbor (\<lambda>c e. True) 1 [7] requester (get_id doc4) client0)))
            = [(0, \<lparr>out_to = Some (reply_to requester), out_data = document_response raw\<rparr>)]
        \<and> created_peers (snd (on_request_document ref_crypto ref_header_lib ref_automerge
            ref_cbor (\<lambda>c e. True) 1 [7] requester (get_id doc4) client0))
            = [(True, get_id doc4, requester)])"
proof -
  have a: "publicKey requester \<in> set (allowedUsers (header doc4))"
    by (simp add: doc4_simps header_v2_users requester_def)
  have b: "getPublicKey ref_crypto [7] \<in> set (allowedUsers (header doc4))"
    by (simp add: doc4_simps header_v2_users ref_crypto_def)
  show ?thesis
    using a b client0_simps(1) client0_find
      request_document_gating
        [where C = ref_crypto and H = ref_header_lib and A = ref_automerge and now = 1
           and B = ref_cbor and cs = "\<lambda>c e. True" and privateKey = "[7]" and sndr = requester,
         OF client0_simps(1) client0_simps(2) client0_find prod.collapse [symmetric]]
    by (simp add: client0_simps(3,4))
qed

section \<open>DocumentSharingClient: requesting a document\<close>

lemma setDocument_exchanger_update:
  "setDocument C H A now d (st\<lparr>exchanger := x\<rparr>)
     = apsnd (\<lambda>t. t\<lparr>exchanger := x\<rparr>) (setDocument C H A now d st)"
  by (simp add: setDocument_def split: option.splits prod.splits sum.splits)

lemma findDocument_exchanger_update:
  "findDocument C H A now ident (st\<lparr>exchanger := x\<rparr>)
     = apsnd (\<lambda>t. t\<lparr>exchanger := x\<rparr>) (findDocument C H A now ident st)"
  by (simp add: findDocument_def setDocument_exchanger_update
      split: option.splits prod.splits sum.splits)

lemma safeParse_request_document:
  "safeParse [RequestDocumentMessageSchema, ResponseDocumentMessageSchema, sig] (request_document i)
     = Inr (request_document i)"
  by (simp add: safeParse_def request_document_def discriminator_def RequestDocumentMessageSchema_def
      typed_object_def z_object_def)

lemma race_event_timer:
  "promise_race [case arrival of None \<Rightarrow> Pending | Some (t, d) \<Rightarrow> Fulfilled t d,
                 Rejected 5000 DocumentRequestTimedOut]
     = (case arrival of
          None \<Rightarrow> Rejected 5000 DocumentRequestTimedOut
        | Some (t, d) \<Rightarrow> if t \<le> 5000 then Fulfilled t d else Rejected 5000 DocumentRequestTimedOut)"
  by (simp split: option.splits prod.splits)

lemma empty_client_simps:
  "clientHandler (exchanger empty_client) = Some 0"
  "verifier (exchanger empty_client)
     = [RequestDocumentMessageSchema, ResponseDocumentMessageSchema, ref_signal_schema]"
  "delegated (exchanger empty_client) = []"
  by (simp_all add: empty_client_def new_DocumentSharingClient_def setClient_def
      new_MessageExchanger_def)

lemma empty_client_find:
  "findDocument C H A now ident empty_client = (Inr None, empty_client)"
  by (simp add: findDocument_def empty_client_def new_DocumentSharingClient_def)

text \<open>
  Claim C9, as stated: when neither the local lookup finds the document nor the event
  arrives within 5 seconds, \<^verbatim>\<open>requestDocument\<close> fails with the time-out error at the
  5-second deadline. It fails on a client that has no such document and hears of none:
  with a lookup that reports its miss after 7 seconds the promise is rejected at 7000, not
  at 5000; and even with a lookup that settles after 100 ms the rejection at 5000 is an
  \<^verbatim>\<open>AggregateError\<close> of the two errors, not the time-out error.
\<close>

theorem requestDocument_timeout_counterexample:
  "fst (findDocument ref_crypto ref_header_lib ref_automerge 0 ''nonexistent'' empty_client) = Inr None
   \<and> fst (requestDocument ref_crypto ref_header_lib ref_automerge (\<lambda>c e. True) 0 7000 None
            ''nonexistent'' empty_client)
       = Rejected 7000 (AggregateError [DocumentNotFound, DocumentRequestTimedOut])
   \<and> fst (requestDocument ref_crypto ref_header_lib ref_automerge (\<lambda>c e. True) 0 100 None
            ''nonexistent'' empty_client)
       = Rejected 5000 (AggregateError [DocumentNotFound, DocumentRequestTimedOut])"
  by (simp add: requestDocument_def findDocument_exchanger_update empty_client_find
      promise_then_def promise_any_def Let_def split: prod.splits)

text \<open>
  Claim C9, amended: \<^verbatim>\<open>requestDocument\<close> hands one \<^verbatim>\<open>request-document\<close> broadcast (no
  recipient) to the signaling client and races the local lookup, the \<^verbatim>\<open>document-<id>\<close>
  event and a 5-second timer. It is fulfilled with a document if the local lookup finds
  one, no later than the lookup settles, or if the event arrives within 5 seconds, no
  later than the event. Otherwise, when the lookup finds nothing or fails and no event
  arrives before the deadline, it is rejected at the later of the deadline and the instant
  at which the lookup settles, with an \<^verbatim>\<open>AggregateError\<close> that holds the lookup's error
  and the time-out error.
\<close>

theorem requestDocument_outcome:
  assumes ready: "clientHandler (exchanger st) = Some client"
    and schemas: "verifier (exchanger st)
                    = [RequestDocumentMessageSchema, ResponseDocumentMessageSchema, SignalMessageSchema]"
    and found: "findDocument C H A now documentId st = (r, st1)"
    and run: "requestDocument C H A cs now tf arrival documentId st = (outcome, st')"
  shows "delegated (exchanger st')
           = delegated (exchanger st)
             @ [(client, \<lparr>out_to = None, out_data = request_document documentId\<rparr>)]
     \<and> (r = Inr (Some d) \<longrightarrow> (\<exists>t v. outcome = Fulfilled t v \<and> t \<le> tf))
     \<and> (r = Inr (Some d) \<longrightarrow> arrival = None \<longrightarrow> outcome = Fulfilled tf d)
     \<and> (arrival = Some (te, d') \<longrightarrow> te < 5000 \<longrightarrow> (\<exists>t v. outcome = Fulfilled t v \<and> t \<le> te))
     \<and> (r = Inr None \<longrightarrow> arrival = Some (te, d') \<longrightarrow> te < 5000 \<longrightarrow> outcome = Fulfilled te d')
     \<and> (r = Inr None \<longrightarrow> arrival = None
          \<longrightarrow> outcome = Rejected (max tf 5000) (AggregateError [DocumentNotFound, DocumentRequestTimedOut]))
     \<and> (r = Inr None \<longrightarrow> arrival = Some (te, d') \<longrightarrow> 5000 < te
          \<longrightarrow> outcome = Rejected (max tf 5000) (AggregateError [DocumentNotFound, DocumentRequestTimedOut]))
     \<and> (r = Inl e \<longrightarrow> arrival = None
          \<longrightarrow> outcome = Rejected (max tf 5000) (AggregateError [e, DocumentRequestTimedOut]))
     \<and> (r = Inl e \<longrightarrow> arrival = Some (te, d') \<longrightarrow> 5000 < te
          \<longrightarrow> outcome = Rejected (max tf 5000) (AggregateError [e, DocumentRequestTimedOut]))"
proof -
  define env where "env = \<lparr>out_to = None, out_data = request_document documentId\<rparr>"
  define x where "x = (exchanger st)\<lparr>delegated := delegated (exchanger st) @ [(client, env)]\<rparr>"
  have s: "snd (sendMessage cs (request_document documentId) None (exchanger st)) = x"
    by (simp add: sendMessage_def ready schemas safeParse_request_document x_def env_def Let_def)
  have f: "findDocument C H A now documentId (st\<lparr>exchanger := x\<rparr>) = (r, st1\<lparr>exchanger := x\<rparr>)"
    by (simp add: findDocument_exchanger_update found)
  define lookup where "lookup = promise_then
      (case r of Inl e \<Rightarrow> Rejected tf e | Inr found \<Rightarrow> Fulfilled tf found)
      (\<lambda>document. case document of None \<Rightarrow> Inl DocumentNotFound | Some d \<Rightarrow> Inr d)"
  define race where "race = (case arrival of
          None \<Rightarrow> Rejected 5000 DocumentRequestTimedOut
        | Some (t, d) \<Rightarrow> if t \<le> 5000 then Fulfilled t d else Rejected 5000 DocumentRequestTimedOut)"
  have o: "outcome = promise_any [lookup, race]" and st': "st' = st1\<lparr>exchanger := x\<rparr>"
    using run s f
    by (simp_all add: requestDocument_def Let_def lookup_def race_def race_event_timer
        del: promise_race.simps split: prod.splits)
  have l: "lookup = (case r of Inl e \<Rightarrow> Rejected tf e | Inr None \<Rightarrow> Rejected tf DocumentNotFound
                     | Inr (Some d) \<Rightarrow> Fulfilled tf d)"
    by (simp add: lookup_def promise_then_def split: sum.splits option.splits)
  have 1: "delegated (exchanger st') = delegated (exchanger st) @ [(client, env)]"
    by (simp add: st' x_def)
  have 2: "r = Inr (Some d) \<longrightarrow> (\<exists>t v. outcome = Fulfilled t v \<and> t \<le> tf)"
    by (auto simp add: o l race_def promise_any_def split: option.splits)
  have 3: "r = Inr (Some d) \<longrightarrow> arrival = None \<longrightarrow> outcome = Fulfilled tf d"
    by (simp add: o l race_def promise_any_def)
  have 4: "arrival = Some (te, d') \<longrightarrow> te < 5000 \<longrightarrow> (\<exists>t v. outcome = Fulfilled t v \<and> t \<le> te)"
    by (auto simp add: o l race_def promise_any_def split: sum.splits option.splits)
  have 5: "r = Inr None \<longrightarrow> arrival = Some (te, d') \<longrightarrow> te < 5000 \<longrightarrow> outcome = Fulfilled te d'"
    by (simp add: o l race_def promise_any_def)
  have 6: "r = Inr None \<longrightarrow> arrival = None
          \<longrightarrow> outcome = Rejected (max tf 5000) (AggregateError [DocumentNotFound, DocumentRequestTimedOut])"
    by (simp add: o l race_def promise_any_def)
  have 7: "r = Inr None \<longrightarrow> arrival = Some (te, d') \<longrightarrow> 5000 < te
          \<longrightarrow> outcome = Rejected (max tf 5000) (AggregateError [DocumentNotFound, DocumentRequestTimedOut])"
    by (simp add: o l race_def promise_any_def)
  have 8: "r = Inl e \<longrightarrow> arrival = None
          \<longrightarrow> outcome = Rejected (max tf 5000) (AggregateError [e, DocumentRequestTimedOut])"
    by (simp add: o l race_def promise_any_def)
  have 9: "r = Inl e \<longrightarrow> arrival = Some (te, d') \<longrightarrow> 5000 < te
          \<longrightarrow> outcome = Rejected (max tf 5000) (AggregateError [e, DocumentRequestTimedOut])"
    by (simp add: o l race_def promise_any_def)
  show ?thesis
    using 1 2 3 4 5 6 7 8 9 unfolding env_def by blast
qed

text \<open>Claim C9, amended, on the reference clients: one broadcast is delegated; a
  request for an unknown document is rejected at the deadline with both errors, or
  fulfilled by an event at 3000; a request for a held document is fulfilled by the lookup.\<close>

theorem requestDocument_outcome_witness:
  "clientHandler (exchanger empty_client) = Some 0
   \<and> delegated (exchanger (snd (requestDocument ref_crypto ref_header_lib ref_automerge
        (\<lambda>c e. True) 0 100 None ''nonexistent'' empty_client)))
       = [(0, \<lparr>out_to = None, out_data = request_document ''nonexistent''\<rparr>)]
   \<and> fst (requestDocument ref_crypto ref_header_lib ref_automerge (\<lambda>c e. True) 0 100 None
            ''nonexistent'' empty_client)
       = Rejected 5000 (AggregateError [DocumentNotFound, DocumentRequestTimedOut])
   \<and> fst (requestDocument ref_crypto ref_header_lib ref_automerge (\<lambda>c e. True) 0 100
            (Some (3000, doc4)) ''nonexistent'' empty_client)
       = Fulfilled 3000 doc4
   \<and> fst (requestDocument ref_crypto ref_header_lib ref_automerge (\<lambda>c e. True) 0 100 None
            (get_id doc4) client0)
       = Fulfilled 100 doc4"
  using
    requestDocument_outcome
      [where C = ref_crypto and H = ref_header_lib and A = ref_automerge and now = 0
         and cs = "\<lambda>c e. True" and tf = 100 and arrival = None,
       OF empty_client_simps(1) empty_client_simps(2) empty_client_find prod.collapse [symmetric]]
    requestDocument_outcome
      [where C = ref_crypto and H = ref_header_lib and A = ref_automerge and now = 0
         and cs = "\<lambda>c e. True" and tf = 100 and arrival = "Some (3000, doc4)"
         and te = 3000 and d' = doc4,
       OF empty_client_simps(1) empty_client_simps(2) empty_client_find prod.collapse [symmetric]]
    requestDocument_outcome
      [where C = ref_crypto and H = ref_header_lib and A = ref_automerge and now = 0
         and cs = "\<lambda>c e. True" and tf = 100 and arrival = None and d = doc4,
       OF client0_simps(1) client0_simps(2) client0_find prod.collapse [symmetric]]
  by (simp add: empty_client_simps)

end
